theory Spec2Isabelle
  imports Main
begin

section \<open>Data model of the instance reconciler\<close>

text \<open>
  The sources are three Go files of the package \<^verbatim>\<open>controllers\<close>: the generic controller and
  the service integration handler (both in \<^verbatim>\<open>src/controllers/controller.go\<close>), and the
  file of constants and helpers that follows the workflow in
  \<^verbatim>\<open>src/.github/workflows/acceptance-tests.yaml\<close> (from its line 40 on; "the helper file"
  below).
\<close>

text \<open>
  An \<^verbatim>\<open>error\<close> value is observed by the engine in two ways only: through its text
  (\<^verbatim>\<open>err.Error()\<close>) and through the provider library's predicate
  \<^verbatim>\<open>aiven.IsNotFound(err)\<close> (the store's own not-found predicate is used once, by
  \<^verbatim>\<open>client.IgnoreNotFound\<close>). An error is therefore kept with its origin, its text
  and the answer of the not-found predicate that belongs to its origin.
  \<^verbatim>\<open>fmt.Errorf("<prefix>%w", err)\<close> is the constructor \<open>Errorf\<close>.
\<close>

datatype error =
    HandlerError string bool
  | K8sError string bool
  | ClientError string
  | Errorf string error

fun Error :: "error \<Rightarrow> string" where
  "Error (HandlerError t nf) = t"
| "Error (K8sError t nf) = t"
| "Error (ClientError t) = t"
| "Error (Errorf p e) = p @ Error e"

text \<open>\<^verbatim>\<open>aiven.IsNotFound\<close>: only an error that comes from the provider can be a provider
  not-found; the engine never applies the predicate to a wrapped provider error.\<close>

fun aiven_IsNotFound :: "error \<Rightarrow> bool" where
  "aiven_IsNotFound (HandlerError t nf) = nf"
| "aiven_IsNotFound e = False"

text \<open>\<^verbatim>\<open>client.IgnoreNotFound\<close> of controller-runtime.\<close>

fun IgnoreNotFound :: "error \<Rightarrow> error option" where
  "IgnoreNotFound (K8sError t nf) = (if nf then None else Some (K8sError t nf))"
| "IgnoreNotFound e = Some e"

text \<open>\<^verbatim>\<open>strings.Contains\<close>.\<close>

fun Contains :: "string \<Rightarrow> string \<Rightarrow> bool" where
  "Contains [] substr = (substr = [])"
| "Contains (c # cs) substr = (take (length substr) (c # cs) = substr \<or> Contains cs substr)"

text \<open>\<^verbatim>\<open>strconv.FormatInt(i, formatIntBaseDecimal)\<close>, the base being the constant 10: the
  decimal text of a signed integer. \<open>digit\<close> is only applied to numbers below ten.\<close>

definition digit :: "nat \<Rightarrow> char" where
  "digit d = ''0123456789'' ! d"

fun FormatUint :: "nat \<Rightarrow> string" where
  "FormatUint n = (if n < 10 then [digit n] else FormatUint (n div 10) @ [digit (n mod 10)])"

declare FormatUint.simps [simp del]

definition FormatInt :: "int \<Rightarrow> string" where
  "FormatInt i = (if i < 0 then CHR ''-'' # FormatUint (nat (- i)) else FormatUint (nat i))"

text \<open>The constants of the helper file (lines 56 to 63).\<close>

definition conditionTypeRunning :: string where
  "conditionTypeRunning = ''Running''"

definition conditionTypeInitialized :: string where
  "conditionTypeInitialized = ''Initialized''"

definition secretProtectionFinalizer :: string where
  "secretProtectionFinalizer = ''finalizers.aiven.io/needed-to-delete-services''"

definition instanceDeletionFinalizer :: string where
  "instanceDeletionFinalizer = ''finalizers.aiven.io/delete-remote-resource''"

definition processedGenerationAnnotation :: string where
  "processedGenerationAnnotation = ''controllers.aiven.io/generation-was-processed''"

definition instanceIsRunningAnnotation :: string where
  "instanceIsRunningAnnotation = ''controllers.aiven.io/instance-is-running''"

text \<open>
  \<^verbatim>\<open>client.Object\<close>: the metadata the engine reads and writes. \<^verbatim>\<open>Generation\<close> is an
  \<^verbatim>\<open>int64\<close> that is only compared and printed, never computed with.
  \<^verbatim>\<open>GetDeletionTimestamp()\<close> is a pointer to a time, nil when the object is not being
  deleted; a time is the number of instants since Go's zero time. The managed object adds
  its credential reference (\<^verbatim>\<open>AuthSecretRef()\<close>: name and key), the secret its data.
\<close>

record ObjectMeta =
  Name :: string
  Namespace :: string
  Generation :: int
  DeletionTimestamp :: "nat option"
  Finalizers :: "string list"
  Annotations :: "string \<rightharpoonup> string"

record Object = ObjectMeta +
  AuthSecretRef_Name :: string
  AuthSecretRef_Key :: string

record Secret = ObjectMeta +
  Data :: "string \<rightharpoonup> string"

record aiven_Client =
  APIKey :: string
  UserAgent :: string

text \<open>\<^verbatim>\<open>ctrl.Result\<close>; \<^verbatim>\<open>RequeueAfter\<close> is a \<^verbatim>\<open>time.Duration\<close>, in nanoseconds.\<close>

record Result =
  Requeue :: bool
  RequeueAfter :: int

definition Result_zero :: Result where
  "Result_zero = \<lparr>Requeue = False, RequeueAfter = 0\<rparr>"

definition Second :: int where
  "Second = 1000000000"

definition requeueTimeout :: int where
  "requeueTimeout = 10 * Second"

definition eventUnableToGetAuthSecret :: string where "eventUnableToGetAuthSecret = ''UnableToGetAuthSecret''"
definition eventUnableToCreateClient :: string where "eventUnableToCreateClient = ''UnableToCreateClient''"
definition eventReconciliationStarted :: string where "eventReconciliationStarted = ''ReconcilationStarted''"
definition eventTryingToDeleteAtAiven :: string where "eventTryingToDeleteAtAiven = ''TryingToDeleteAtAiven''"
definition eventUnableToDeleteAtAiven :: string where "eventUnableToDeleteAtAiven = ''UnableToDeleteAtAiven''"
definition eventUnableToDeleteFinalizer :: string where "eventUnableToDeleteFinalizer = ''UnableToDeleteFinalizer''"
definition eventSuccessfullyDeletedAtAiven :: string where "eventSuccessfullyDeletedAtAiven = ''SuccessfullyDeletedAtAiven''"
definition eventAddedFinalizer :: string where "eventAddedFinalizer = ''InstanceFinalizerAdded''"
definition eventUnableToAddFinalizer :: string where "eventUnableToAddFinalizer = ''UnableToAddFinalizer''"
definition eventWaitingforPreconditions :: string where "eventWaitingforPreconditions = ''WaitingForPreconditions''"
definition eventUnableToWaitForPreconditions :: string where "eventUnableToWaitForPreconditions = ''UnableToWaitForPreconditions''"
definition eventPreconditionsAreMet :: string where "eventPreconditionsAreMet = ''PreconditionsAreMet''"
definition eventUnableToCreateOrUpdateAtAiven :: string where "eventUnableToCreateOrUpdateAtAiven = ''UnableToCreateOrUpdateAtAiven''"
definition eventCreateOrUpdatedAtAiven :: string where "eventCreateOrUpdatedAtAiven = ''CreateOrUpdatedAtAiven''"
definition eventCreatedOrUpdatedAtAiven :: string where "eventCreatedOrUpdatedAtAiven = ''CreatedOrUpdatedAtAiven''"
definition eventWaitingForTheInstanceToBeRunning :: string where "eventWaitingForTheInstanceToBeRunning = ''WaitingForInstanceToBeRunning''"
definition eventUnableToWaitForInstanceToBeRunning :: string where "eventUnableToWaitForInstanceToBeRunning = ''UnableToWaitForInstanceToBeRunning''"
definition eventInstanceIsRunning :: string where "eventInstanceIsRunning = ''InstanceIsRunning''"

subsection \<open>The world outside the engine\<close>

text \<open>
  Every call that leaves the engine is logged, in program order: the notifications
  given to the recorder, the calls of the four handler methods with the object as it is
  handed over and what the handler answered, and the calls to the store's client with
  their outcome. The handler and the store answer as functions of the calls made so far
  and of their argument, so the same call may be answered differently at different
  moments of a pass. Every function of the engine takes the calls made before it was
  entered (\<open>tr\<close>) and returns the calls it made itself.
\<close>

datatype EventType = EventTypeNormal | EventTypeWarning

datatype call =
    Event EventType string string
  | Eventf EventType string string
  | Called_checkPreconditions Object "bool \<times> error option"
  | Called_createOrUpdate Object "Object \<times> error option"
  | Called_get Object "Object \<times> Secret option \<times> error option"
  | Called_delete Object "bool \<times> error option"
  | Got_Object "string \<times> string" "error + Object"
  | Got_Secret "string \<times> string" "error + Secret"
  | Updated_Secret Secret "error option"
  | Updated_Object Object "error option"
  | Updated_Status Object "error option"
  | CreatedOrUpdated_Secret Object Secret "error option"

text \<open>
  The \<^verbatim>\<open>Handlers\<close> interface. The object is passed by reference:
  \<^verbatim>\<open>createOrUpdate\<close> and \<^verbatim>\<open>get\<close> write to it (status, conditions, annotations) and so
  return it; \<^verbatim>\<open>checkPreconditions\<close> and \<^verbatim>\<open>delete\<close> are a check and a removal on the
  provider's side and return their two results, as in \<^verbatim>\<open>ServiceIntegrationHandler\<close>,
  where they read the object and only \<^verbatim>\<open>createOrUpdate\<close> and \<^verbatim>\<open>get\<close> hand one back.
\<close>

record Handlers =
  createOrUpdate :: "call list \<Rightarrow> aiven_Client \<Rightarrow> Object \<Rightarrow> Object \<times> error option"
  delete :: "call list \<Rightarrow> aiven_Client \<Rightarrow> Object \<Rightarrow> bool \<times> error option"
  get :: "call list \<Rightarrow> aiven_Client \<Rightarrow> Object \<Rightarrow> Object \<times> Secret option \<times> error option"
  checkPreconditions :: "call list \<Rightarrow> aiven_Client \<Rightarrow> Object \<Rightarrow> bool \<times> error option"

text \<open>
  The store's client (\<^verbatim>\<open>client.Client\<close>) and \<^verbatim>\<open>aiven.NewTokenClient\<close>. An update
  answers with an error or none; the fields the engine reads afterwards are taken to stay
  as the engine and the handler left them in memory.
  \<^verbatim>\<open>CreateOrUpdate_Secret\<close> is \<^verbatim>\<open>controllerutil.CreateOrUpdate\<close> with the owner
  reference set to the managed object.
\<close>

record Client =
  Get_Object :: "call list \<Rightarrow> string \<times> string \<Rightarrow> error + Object"
  Get_Secret :: "call list \<Rightarrow> string \<times> string \<Rightarrow> error + Secret"
  Update_Secret :: "call list \<Rightarrow> Secret \<Rightarrow> error option"
  Update_Object :: "call list \<Rightarrow> Object \<Rightarrow> error option"
  Status_Update :: "call list \<Rightarrow> Object \<Rightarrow> error option"
  CreateOrUpdate_Secret :: "call list \<Rightarrow> Object \<Rightarrow> Secret \<Rightarrow> error option"
  NewTokenClient :: "string \<Rightarrow> string \<Rightarrow> error + aiven_Client"

section \<open>Helpers of the engine\<close>

text \<open>\<^verbatim>\<open>controllerutil.ContainsFinalizer\<close>, \<^verbatim>\<open>AddFinalizer\<close>, \<^verbatim>\<open>RemoveFinalizer\<close>.\<close>

definition ContainsFinalizer :: "'a ObjectMeta_scheme \<Rightarrow> string \<Rightarrow> bool" where
  "ContainsFinalizer o' f = (f \<in> set (Finalizers o'))"

definition AddFinalizer :: "'a ObjectMeta_scheme \<Rightarrow> string \<Rightarrow> 'a ObjectMeta_scheme" where
  "AddFinalizer o' f =
     (if f \<in> set (Finalizers o') then o' else o'\<lparr>Finalizers := Finalizers o' @ [f]\<rparr>)"

definition RemoveFinalizer :: "'a ObjectMeta_scheme \<Rightarrow> string \<Rightarrow> 'a ObjectMeta_scheme" where
  "RemoveFinalizer o' f = o'\<lparr>Finalizers := filter (\<lambda>g. g \<noteq> f) (Finalizers o')\<rparr>"

text \<open>
  \<^verbatim>\<open>isMarkedForDeletion\<close> (helper file, lines 101 to 103):
  \<^verbatim>\<open>!o.GetDeletionTimestamp().IsZero()\<close>, where \<^verbatim>\<open>IsZero\<close> holds of the nil pointer and
  of the zero time.
\<close>

definition IsZero :: "nat option \<Rightarrow> bool" where
  "IsZero t = (case t of None \<Rightarrow> True | Some u \<Rightarrow> u = 0)"

definition isMarkedForDeletion :: "'a ObjectMeta_scheme \<Rightarrow> bool" where
  "isMarkedForDeletion o' = (\<not> IsZero (DeletionTimestamp o'))"

text \<open>
  \<^verbatim>\<open>isAlreadyProcessed\<close> (helper file, lines 115 to 117): the value the annotation map
  holds for the key, the empty string when the key is absent, is compared with the decimal
  text of the generation.
\<close>

definition isAlreadyProcessed :: "'a ObjectMeta_scheme \<Rightarrow> bool" where
  "isAlreadyProcessed o' =
     ((case Annotations o' processedGenerationAnnotation of None \<Rightarrow> [] | Some v \<Rightarrow> v) =
      FormatInt (Generation o'))"

text \<open>
  Modelled from the spec: the function \<^verbatim>\<open>isAlreadyRunning\<close> that
  \<^verbatim>\<open>canBeDeleted\<close> and \<^verbatim>\<open>updateInstanceStateAndSecretUntilRunning\<close> call is not declared in
  the sources; the helper file has the exported \<^verbatim>\<open>IsAlreadyRunning\<close> (lines 119 to 123),
  which tells whether the "instance running" key is in the annotation map. Spec, section
  3: "instance running" is a presence flag with any value. The definition is that body.
\<close>

definition isAlreadyRunning :: "'a ObjectMeta_scheme \<Rightarrow> bool" where
  "isAlreadyRunning o' = (Annotations o' instanceIsRunningAnnotation \<noteq> None)"

text \<open>
  \<^verbatim>\<open>addFinalizer\<close> and \<^verbatim>\<open>removeFinalizer\<close> (helper file, lines 105 to 113):
  \<^verbatim>\<open>controllerutil.AddFinalizer\<close> or \<^verbatim>\<open>RemoveFinalizer\<close> on the object in memory, then
  \<^verbatim>\<open>client.Update\<close>, whose error is returned. The engine calls \<^verbatim>\<open>addFinalizer\<close> on the
  secret and on the managed object; \<open>addFinalizer_Secret\<close> is the call on the secret, where
  \<^verbatim>\<open>client.Update\<close> is the store's update of a secret.
\<close>

definition addFinalizer_Secret ::
  "Client \<Rightarrow> Secret \<Rightarrow> string \<Rightarrow> call list \<Rightarrow> error option \<times> Secret \<times> call list" where
  "addFinalizer_Secret k8s s f tr =
     (let s1 = AddFinalizer s f; err = Update_Secret k8s tr s1
      in (err, s1, [Updated_Secret s1 err]))"

definition addFinalizer ::
  "Client \<Rightarrow> Object \<Rightarrow> string \<Rightarrow> call list \<Rightarrow> error option \<times> Object \<times> call list" where
  "addFinalizer k8s o' f tr =
     (let o1 = AddFinalizer o' f; err = Update_Object k8s tr o1
      in (err, o1, [Updated_Object o1 err]))"

definition removeFinalizer ::
  "Client \<Rightarrow> Object \<Rightarrow> string \<Rightarrow> call list \<Rightarrow> error option \<times> Object \<times> call list" where
  "removeFinalizer k8s o' f tr =
     (let o1 = RemoveFinalizer o' f; err = Update_Object k8s tr o1
      in (err, o1, [Updated_Object o1 err]))"

section \<open>The engine\<close>

text \<open>
  The methods of \<^verbatim>\<open>instanceReconcilerHelper\<close>. The helper's fields \<^verbatim>\<open>h\<close>, \<^verbatim>\<open>k8s\<close>,
  \<^verbatim>\<open>avn\<close> and \<^verbatim>\<open>s\<close> are arguments; logging has no effect and is left out;
  \<^verbatim>\<open>i.rec.Event(o, type, reason, message)\<close> is the call \<open>Event type reason message\<close>,
  and \<^verbatim>\<open>Eventf\<close> the call \<open>Eventf type reason format\<close> with the format it is given.
  The object is changed in place by the source, so each function returns the object as it
  is in memory when the function returns, and the calls it made.
\<close>

definition canBeDeleted :: "Object \<Rightarrow> error option \<Rightarrow> bool" where
  "canBeDeleted o' err =
     (case err of
        None \<Rightarrow> True
      | Some e \<Rightarrow> \<not> isAlreadyProcessed o' \<and> \<not> isAlreadyRunning o' \<and>
          Contains (Error e) ''Invalid token'')"

text \<open>Lines 247 to 263 of \<^verbatim>\<open>finalize\<close>: what follows the check of the delete error.\<close>

definition finalize_finalised ::
  "Client \<Rightarrow> Object \<Rightarrow> bool \<Rightarrow> call list \<Rightarrow> (Result \<times> error option) \<times> Object \<times> call list" where
  "finalize_finalised k8s o' finalised tr =
     (if \<not> finalised then
        ((\<lparr>Requeue = True, RequeueAfter = requeueTimeout\<rparr>, None), o', [])
      else
        let cs = [Event EventTypeNormal eventSuccessfullyDeletedAtAiven
                    ''instance is gone at aiven now''];
            (err, o1, cs1) = removeFinalizer k8s o' instanceDeletionFinalizer (tr @ cs);
            cs = cs @ cs1
        in case err of
             Some e \<Rightarrow>
               ((Result_zero, Some (Errorf ''unable to remove finalizer: '' e)), o1,
                cs @ [Event EventTypeWarning eventUnableToDeleteFinalizer (Error e)])
           | None \<Rightarrow> ((Result_zero, None), o1, cs))"

definition finalize ::
  "Handlers \<Rightarrow> Client \<Rightarrow> aiven_Client \<Rightarrow> Object \<Rightarrow> call list \<Rightarrow>
     (Result \<times> error option) \<times> Object \<times> call list" where
  "finalize h k8s avn o' tr =
     (let cs = [Event EventTypeNormal eventTryingToDeleteAtAiven
                  ''trying to delete instance at aiven''];
          (finalised, err) = delete h (tr @ cs) avn o';
          cs = cs @ [Called_delete o' (finalised, err)]
      in case err of
           Some e \<Rightarrow>
             if \<not> canBeDeleted o' err then
               ((Result_zero, Some (Errorf ''unable to delete instance at aiven: '' e)), o',
                cs @ [Event EventTypeWarning eventUnableToDeleteAtAiven (Error e)])
             else
               let (r, o1, cs1) = finalize_finalised k8s o' finalised (tr @ cs)
               in (r, o1, cs @ cs1)
         | None \<Rightarrow>
             let (r, o1, cs1) = finalize_finalised k8s o' finalised (tr @ cs)
             in (r, o1, cs @ cs1))"

definition checkPreconditions_i ::
  "Handlers \<Rightarrow> aiven_Client \<Rightarrow> Object \<Rightarrow> call list \<Rightarrow>
     (bool \<times> Result \<times> error option) \<times> call list" where
  "checkPreconditions_i h avn o' tr =
     (let cs = [Event EventTypeNormal eventWaitingforPreconditions
                  ''waiting for preconditions of the instance''];
          (check, err) = checkPreconditions h (tr @ cs) avn o';
          cs = cs @ [Called_checkPreconditions o' (check, err)]
      in case err of
           Some e \<Rightarrow>
             ((True, Result_zero, Some (Errorf ''unable to wait for preconditions: '' e)),
              cs @ [Event EventTypeWarning eventUnableToWaitForPreconditions (Error e)])
         | None \<Rightarrow>
             if \<not> check then
               ((True, \<lparr>Requeue = True, RequeueAfter = requeueTimeout\<rparr>, None), cs)
             else
               ((False, Result_zero, None),
                cs @ [Event EventTypeNormal eventPreconditionsAreMet
                        ''preconditions are met, proceeding to create or update'']))"

text \<open>
  \<^verbatim>\<open>a := o.GetAnnotations()\<close> is the object's own map, so the two \<^verbatim>\<open>delete(a, ...)\<close>
  remove the keys from the object (on a nil map they do nothing, as on an empty one).
\<close>

definition createOrUpdateInstance ::
  "Handlers \<Rightarrow> aiven_Client \<Rightarrow> Object \<Rightarrow> call list \<Rightarrow> error option \<times> Object \<times> call list" where
  "createOrUpdateInstance h avn o' tr =
     (let a = Annotations o';
          a = a(processedGenerationAnnotation := None);
          a = a(instanceIsRunningAnnotation := None);
          o1 = o'\<lparr>Annotations := a\<rparr>;
          (o2, err) = createOrUpdate h tr avn o1;
          cs = [Called_createOrUpdate o1 (o2, err)]
      in case err of
           Some e \<Rightarrow> (Some (Errorf ''unable to create or update aiven instance: '' e), o2, cs)
         | None \<Rightarrow> (None, o2, cs))"

definition createOrUpdateSecret ::
  "Client \<Rightarrow> Object \<Rightarrow> Secret \<Rightarrow> call list \<Rightarrow> error option \<times> call list" where
  "createOrUpdateSecret k8s owner want tr =
     (let err = CreateOrUpdate_Secret k8s tr owner want
      in (err, [CreatedOrUpdated_Secret owner want err]))"

text \<open>
  \<^verbatim>\<open>multierror.Append\<close> skips nil errors and collects the others in order;
  \<^verbatim>\<open>ErrorOrNil\<close> is nil when nothing was collected. The first argument of the first
  \<^verbatim>\<open>Append\<close> is the plain local \<^verbatim>\<open>err\<close>.
\<close>

definition multierror_Append :: "error list \<Rightarrow> error option \<Rightarrow> error list" where
  "multierror_Append errs e = (case e of None \<Rightarrow> errs | Some x \<Rightarrow> errs @ [x])"

definition ErrorOrNil :: "error list \<Rightarrow> error list option" where
  "ErrorOrNil errs = (if errs = [] then None else Some errs)"

text \<open>
  Lines 306 to 314, the body of \<^verbatim>\<open>updateInstanceStateAndSecretUntilRunning\<close>: the two
  operands of the \<^verbatim>\<open>return\<close> that is reached, the value of the local variable
  \<^verbatim>\<open>err\<close> at that moment, the object and the calls made.
\<close>

definition updateInstanceStateAndSecretUntilRunning_body ::
  "Handlers \<Rightarrow> Client \<Rightarrow> aiven_Client \<Rightarrow> Object \<Rightarrow> call list \<Rightarrow>
     (bool \<times> error option) \<times> error option \<times> Object \<times> call list" where
  "updateInstanceStateAndSecretUntilRunning_body h k8s avn o' tr =
     (let (o1, serviceSecret, err) = get h tr avn o';
          cs = [Called_get o' (o1, serviceSecret, err)]
      in case err of
           Some e \<Rightarrow> ((False, Some e), Some e, o1, cs)
         | None \<Rightarrow>
             (case serviceSecret of
                Some want \<Rightarrow>
                  let (err, cs1) = createOrUpdateSecret k8s o1 want (tr @ cs)
                  in (case err of
                        Some e \<Rightarrow>
                          ((False, Some (Errorf ''unable to create or update aiven secret: '' e)),
                           Some e, o1, cs @ cs1)
                      | None \<Rightarrow> ((isAlreadyRunning o1, None), None, o1, cs @ cs1))
              | None \<Rightarrow> ((isAlreadyRunning o1, None), None, o1, cs)))"

text \<open>
  \<^verbatim>\<open>updateInstanceStateAndSecretUntilRunning\<close> has the unnamed results
  \<^verbatim>\<open>(bool, error)\<close>. Each \<^verbatim>\<open>return\<close> first stores its two operands as the results;
  the deferred function runs after that and assigns to the local variable \<^verbatim>\<open>err\<close>,
  which is no result parameter. So the function returns the pair \<open>ret\<close> that the body
  stored, after the deferred function has made the two updates and has left the combined
  error in the local variable. The final value of that local variable is the second
  component of the model's result, so that it can be told apart from what the caller
  receives.
\<close>

definition updateInstanceStateAndSecretUntilRunning ::
  "Handlers \<Rightarrow> Client \<Rightarrow> aiven_Client \<Rightarrow> Object \<Rightarrow> call list \<Rightarrow>
     (bool \<times> error option) \<times> error list option \<times> Object \<times> call list" where
  "updateInstanceStateAndSecretUntilRunning h k8s avn o' tr =
     (let (ret, err, o1, cs) = updateInstanceStateAndSecretUntilRunning_body h k8s avn o' tr;
          e1 = Status_Update k8s (tr @ cs) o1;
          cs = cs @ [Updated_Status o1 e1];
          merr = multierror_Append (multierror_Append [] err) e1;
          e2 = Update_Object k8s (tr @ cs) o1;
          cs = cs @ [Updated_Object o1 e2];
          merr = multierror_Append merr e2;
          err = ErrorOrNil merr
      in (ret, err, o1, cs))"

text \<open>What \<^verbatim>\<open>reconcileInstance\<close> does from line 188 on, with the result of the running check.\<close>

definition reconcileInstance_running ::
  "Handlers \<Rightarrow> Client \<Rightarrow> aiven_Client \<Rightarrow> Object \<Rightarrow> call list \<Rightarrow>
     (Result \<times> error option) \<times> Object \<times> call list" where
  "reconcileInstance_running h k8s avn o' tr =
     (let cs = [Event EventTypeNormal eventWaitingForTheInstanceToBeRunning
                  ''waiting for the instance to be running''];
          ((isRunning, err), local_err, o1, cs1) =
             updateInstanceStateAndSecretUntilRunning h k8s avn o' (tr @ cs);
          cs = cs @ cs1
      in case err of
           Some e \<Rightarrow>
             if aiven_IsNotFound e then
               ((\<lparr>Requeue = True, RequeueAfter = requeueTimeout\<rparr>, None), o1, cs)
             else
               ((Result_zero, Some (Errorf ''unable to wait until instance is running: '' e)), o1,
                cs @ [Event EventTypeWarning eventUnableToWaitForInstanceToBeRunning (Error e)])
         | None \<Rightarrow>
             if \<not> isRunning then
               ((\<lparr>Requeue = True, RequeueAfter = requeueTimeout\<rparr>, None), o1, cs)
             else
               ((Result_zero, None), o1,
                cs @ [Event EventTypeNormal eventInstanceIsRunning
                        ''instance is in a RUNNING state'']))"

text \<open>Lines 172 to 186: the precondition gate and the create-or-update step.\<close>

definition reconcileInstance_update ::
  "Handlers \<Rightarrow> Client \<Rightarrow> aiven_Client \<Rightarrow> Object \<Rightarrow> call list \<Rightarrow>
     (Result \<times> error option) \<times> Object \<times> call list" where
  "reconcileInstance_update h k8s avn o' tr =
     (let ((requeue, result, err), cs) = checkPreconditions_i h avn o' tr
      in if requeue then ((result, err), o', cs)
         else if \<not> isAlreadyProcessed o' then
           let cs = cs @ [Event EventTypeNormal eventCreateOrUpdatedAtAiven
                            ''about to create instance at aiven''];
               (err, o1, cs1) = createOrUpdateInstance h avn o' (tr @ cs);
               cs = cs @ cs1
           in case err of
                Some e \<Rightarrow>
                  ((Result_zero, Some (Errorf ''unable to create or update instance at aiven: '' e)),
                   o1, cs @ [Event EventTypeWarning eventUnableToCreateOrUpdateAtAiven (Error e)])
              | None \<Rightarrow>
                  let cs = cs @ [Event EventTypeNormal eventCreatedOrUpdatedAtAiven
                                   ''instance was created at aiven but may not be running yet''];
                      (r, o2, cs2) = reconcileInstance_running h k8s avn o1 (tr @ cs)
                  in (r, o2, cs @ cs2)
         else
           let (r, o1, cs1) = reconcileInstance_running h k8s avn o' (tr @ cs)
           in (r, o1, cs @ cs1))"

text \<open>Lines 163 to 170: the deletion finalizer of the instance.\<close>

definition reconcileInstance_finalizer ::
  "Handlers \<Rightarrow> Client \<Rightarrow> aiven_Client \<Rightarrow> Object \<Rightarrow> call list \<Rightarrow>
     (Result \<times> error option) \<times> Object \<times> call list" where
  "reconcileInstance_finalizer h k8s avn o' tr =
     (if \<not> ContainsFinalizer o' instanceDeletionFinalizer then
        let (err, o1, cs) = addFinalizer k8s o' instanceDeletionFinalizer tr
        in case err of
             Some e \<Rightarrow>
               ((Result_zero, Some (Errorf ''unable to add finalizer to instance: '' e)), o1,
                cs @ [Eventf EventTypeWarning eventUnableToAddFinalizer (Error e)])
           | None \<Rightarrow>
               let cs = cs @ [Event EventTypeNormal eventAddedFinalizer ''instance finalizer added''];
                   (r, o2, cs1) = reconcileInstance_update h k8s avn o1 (tr @ cs)
               in (r, o2, cs @ cs1)
      else reconcileInstance_update h k8s avn o' tr)"

text \<open>\<^verbatim>\<open>instanceReconcilerHelper.reconcileInstance\<close>; the secret \<^verbatim>\<open>i.s\<close> is returned too.\<close>

definition reconcileInstance ::
  "Handlers \<Rightarrow> Client \<Rightarrow> aiven_Client \<Rightarrow> Secret \<Rightarrow> Object \<Rightarrow> call list \<Rightarrow>
     (Result \<times> error option) \<times> Secret \<times> Object \<times> call list" where
  "reconcileInstance h k8s avn s o' tr =
     (let cs = [Event EventTypeNormal eventReconciliationStarted ''starting reconciliation'']
      in if isMarkedForDeletion o' then
           if ContainsFinalizer o' instanceDeletionFinalizer then
             let (r, o1, cs1) = finalize h k8s avn o' (tr @ cs) in (r, s, o1, cs @ cs1)
           else ((Result_zero, None), s, o', cs)
         else if \<not> ContainsFinalizer s secretProtectionFinalizer then
           let (err, s1, cs1) = addFinalizer_Secret k8s s secretProtectionFinalizer (tr @ cs);
               cs = cs @ cs1
           in case err of
                Some e \<Rightarrow>
                  ((Result_zero, Some (Errorf ''unable to add finalizer to secret: '' e)), s1, o', cs)
              | None \<Rightarrow>
                  let (r, o1, cs2) = reconcileInstance_finalizer h k8s avn o' (tr @ cs)
                  in (r, s1, o1, cs @ cs2)
         else
           let (r, o1, cs1) = reconcileInstance_finalizer h k8s avn o' (tr @ cs)
           in (r, s, o1, cs @ cs1))"

text \<open>
  \<^verbatim>\<open>Controller.reconcileInstance\<close>: the request is the namespaced name of the object
  (name, namespace); \<^verbatim>\<open>AuthSecretRef\<close> of the object as it comes from the store names
  the credential. The object and the secret are absent from the result when they were not
  loaded. \<^verbatim>\<open>%q\<close> puts the name in double quotes (character 34); the escaping of
  special characters inside the name is left out. The user agent is the constant
  \<^verbatim>\<open>operatorUserAgent\<close> of the helper file (line 67), \<^verbatim>\<open>"k8s-operator/"\<close> followed by the
  version of the provider library; the version is left out.
\<close>

definition quoted :: "string \<Rightarrow> string" where
  "quoted s = char_of (34::nat) # s @ [char_of (34::nat)]"

definition Controller_reconcileInstance ::
  "Handlers \<Rightarrow> Client \<Rightarrow> string \<times> string \<Rightarrow> call list \<Rightarrow>
     (Result \<times> error option) \<times> Secret option \<times> Object option \<times> call list" where
  "Controller_reconcileInstance h c req tr =
     (let got = Get_Object c tr req; cs = [Got_Object req got]
      in case got of
           Inl err \<Rightarrow> ((Result_zero, IgnoreNotFound err), None, None, cs)
         | Inr o' \<Rightarrow>
             let key = (AuthSecretRef_Name o', snd req);
                 got_s = Get_Secret c (tr @ cs) key;
                 cs = cs @ [Got_Secret key got_s]
             in (case got_s of
                  Inl err \<Rightarrow>
                    ((Result_zero,
                      Some (Errorf (''cannot get secret '' @ quoted (AuthSecretRef_Name o') @ '': '')
                              err)),
                     None, Some o',
                     cs @ [Eventf EventTypeWarning eventUnableToGetAuthSecret (Error err)])
                | Inr clientAuthSecret \<Rightarrow>
                    (case NewTokenClient c
                            (case Data clientAuthSecret (AuthSecretRef_Key o') of
                               None \<Rightarrow> [] | Some v \<Rightarrow> v)
                            ''k8s-operator/'' of
                       Inl err \<Rightarrow>
                         ((Result_zero, Some (Errorf ''cannot initialize aiven client: '' err)),
                          Some clientAuthSecret, Some o',
                          cs @ [Event EventTypeWarning eventUnableToCreateClient (Error err)])
                     | Inr avn \<Rightarrow>
                         let (r, s1, o1, cs1) =
                               reconcileInstance h c avn clientAuthSecret o' (tr @ cs)
                         in (r, Some s1, Some o1, cs @ cs1))))"

section \<open>UserConfigurationToAPI\<close>

text \<open>
  The values \<^verbatim>\<open>UserConfigurationToAPI\<close> meets behind \<^verbatim>\<open>interface{}\<close>: the nil
  interface, a pointer (nil or not), \<^verbatim>\<open>int64\<close>, \<^verbatim>\<open>bool\<close>, \<^verbatim>\<open>string\<close>, a slice (nil or
  not), a struct with its exported fields in declaration order (each with the value of its
  \<^verbatim>\<open>json\<close> tag), and the \<^verbatim>\<open>map[string]interface{}\<close> the function builds, as a list of
  entries with distinct keys. A run-time panic is a result of its own.
\<close>

datatype gvalue =
    Nil
  | Ptr "gvalue option"
  | Int64 int
  | Bool bool
  | String string
  | Slice "gvalue list option"
  | Struct "(string \<times> gvalue) list"
  | Map "(string \<times> gvalue) list"

datatype panic = Panic string

datatype Kind = Invalid | KPtr | KInt64 | KBool | KString | KSlice | KStruct | KMap

text \<open>\<^verbatim>\<open>reflect.ValueOf(c).Kind()\<close>; the zero \<^verbatim>\<open>reflect.Value\<close> is \<open>Nil\<close>.\<close>

fun Kind_of :: "gvalue \<Rightarrow> Kind" where
  "Kind_of Nil = Invalid"
| "Kind_of (Ptr p) = KPtr"
| "Kind_of (Int64 n) = KInt64"
| "Kind_of (Bool b) = KBool"
| "Kind_of (String s) = KString"
| "Kind_of (Slice xs) = KSlice"
| "Kind_of (Struct fs) = KStruct"
| "Kind_of (Map m) = KMap"

text \<open>\<^verbatim>\<open>reflect.Indirect\<close>: the value a pointer points to, the zero value for a nil pointer.\<close>

fun Indirect :: "gvalue \<Rightarrow> gvalue" where
  "Indirect (Ptr (Some v)) = v"
| "Indirect (Ptr None) = Nil"
| "Indirect v = v"

text \<open>The fields \<^verbatim>\<open>v.Field(i)\<close> of a struct, for \<open>i\<close> below \<^verbatim>\<open>NumField()\<close>, each with its tag.\<close>

fun Fields :: "gvalue \<Rightarrow> (string \<times> gvalue) list" where
  "Fields (Struct fs) = fs"
| "Fields v = []"

text \<open>\<^verbatim>\<open>strings.ReplaceAll\<close>: every non-overlapping instance of \<open>old\<close>, from the left; an
  empty \<open>old\<close> matches before every character and at the end.\<close>

function replace_from :: "string \<Rightarrow> string \<Rightarrow> string \<Rightarrow> string" where
  "replace_from [] old new = []"
| "replace_from (c # cs) old new =
     (if old \<noteq> [] \<and> take (length old) (c # cs) = old
      then new @ replace_from (drop (length old) (c # cs)) old new
      else c # replace_from cs old new)"
  by pat_completeness auto
termination
  by (relation "measure (\<lambda>(s, old, new). length s)") auto

definition ReplaceAll :: "string \<Rightarrow> string \<Rightarrow> string \<Rightarrow> string" where
  "ReplaceAll s old new =
     (if old = [] then new @ concat (map (\<lambda>c. c # new) s) else replace_from s old new)"

text \<open>\<^verbatim>\<open>result[name] = v\<close> on a Go map.\<close>

fun assign :: "(string \<times> gvalue) list \<Rightarrow> string \<Rightarrow> gvalue \<Rightarrow> (string \<times> gvalue) list" where
  "assign [] k v = [(k, v)]"
| "assign ((k', v') # m) k v = (if k' = k then (k, v) # m else (k', v') # assign m k v)"

text \<open>The first loop, given what the recursive calls returned: the fields are assigned in
  order, and the first panic of a recursive call ends the function.\<close>

fun assign_fields ::
  "(string \<times> (panic + gvalue)) list \<Rightarrow> (string \<times> gvalue) list \<Rightarrow> panic + (string \<times> gvalue) list" where
  "assign_fields [] result = Inr result"
| "assign_fields ((name, Inl p) # fs) result = Inl p"
| "assign_fields ((name, Inr v) # fs) result = assign_fields fs (assign result name v)"

fun isNil :: "gvalue \<Rightarrow> bool" where
  "isNil Nil = True"
| "isNil (Ptr p) = (p = None)"
| "isNil (Slice xs) = (xs = None)"
| "isNil v = False"

text \<open>
  The second loop. An entry is deleted when the value is nil, \<^verbatim>\<open>isNil\<close> or the empty
  string, and when it is an empty map. For the nil interface
  \<^verbatim>\<open>reflect.TypeOf(val)\<close> is nil and \<^verbatim>\<open>.Kind()\<close> on it panics; the order in which Go
  visits the entries does not change which entries are left or whether it panics.
\<close>

definition deleted :: "gvalue \<Rightarrow> bool" where
  "deleted val = (val = Nil \<or> isNil val \<or> val = String [] \<or> val = Map [])"

definition remove_empty :: "(string \<times> gvalue) list \<Rightarrow> panic + gvalue" where
  "remove_empty result =
     (if list_ex (\<lambda>(key, val). val = Nil) result
      then Inl (Panic ''invalid memory address or nil pointer dereference'')
      else Inr (Map (filter (\<lambda>(key, val). \<not> deleted val) result)))"

text \<open>
  \<^verbatim>\<open>*c.(*int64)\<close> and \<^verbatim>\<open>*c.(*bool)\<close> assert that \<open>c\<close> itself is the pointer; on a plain
  \<^verbatim>\<open>int64\<close> or \<^verbatim>\<open>bool\<close> the assertion panics. In the first loop
  \<^verbatim>\<open>structType.Kind()\<close> is \<^verbatim>\<open>reflect.Struct\<close> whenever the loop is reached, so its
  \<^verbatim>\<open>else\<close> branch is never taken.
\<close>

function UserConfigurationToAPI :: "gvalue \<Rightarrow> panic + gvalue" where
  "UserConfigurationToAPI c =
     (let v = c;
          v = (if Kind_of v = KPtr then Indirect v else v)
      in if Kind_of v \<noteq> KStruct then
           (case Kind_of v of
              KInt64 \<Rightarrow>
                (case c of Ptr (Some (Int64 n)) \<Rightarrow> Inr (Int64 n)
                 | _ \<Rightarrow> Inl (Panic ''interface conversion: interface {} is int64, not *int64''))
            | KBool \<Rightarrow>
                (case c of Ptr (Some (Bool b)) \<Rightarrow> Inr (Bool b)
                 | _ \<Rightarrow> Inl (Panic ''interface conversion: interface {} is bool, not *bool''))
            | _ \<Rightarrow> Inr c)
         else
           (case assign_fields
                   (map (\<lambda>(tag, fv). (ReplaceAll tag '',omitempty'' [], UserConfigurationToAPI fv))
                      (Fields v)) [] of
              Inl p \<Rightarrow> Inl p
            | Inr result \<Rightarrow> remove_empty result))"
  by pat_completeness auto
termination
proof (relation "measure size")
  show "wf (measure (size :: gvalue \<Rightarrow> nat))"
    by simp
next
  fix c x xa :: gvalue and xb :: "string \<times> gvalue" and xc :: string and y :: gvalue
  assume v: "xa = (if Kind_of x = KPtr then Indirect x else x)" "x = c"
    and f: "xb \<in> set (Fields xa)" "(xc, y) = xb"
  have struct: "size y < size (Struct fs)" if "(xc, y) \<in> set fs" for fs
    using that by (induction fs) auto
  have "size y < size c"
  proof (cases c)
    case (Ptr p)
    show ?thesis
    proof (cases p)
      case None
      with Ptr v f show ?thesis by simp
    next
      case (Some w)
      with Ptr v f have "(xc, y) \<in> set (Fields w)" by simp
      then have "size y < size w" using struct by (cases w) auto
      with Ptr Some show ?thesis by simp
    qed
  next
    case (Struct fs)
    with v f struct show ?thesis by simp
  qed (use v f in auto)
  then show "(y, c) \<in> measure size"
    by simp
qed

declare UserConfigurationToAPI.simps [simp del]

section \<open>ServiceIntegrationHandler.createOrUpdate\<close>

text \<open>
  \<^verbatim>\<open>metav1.Condition\<close> with the four fields the sources set, and the two constructors of
  the helper file (lines 83 to 99). \<^verbatim>\<open>meta.SetStatusCondition\<close> appends a condition
  whose type is new, and gives the condition of the same type the status, reason and
  message of the new one.
\<close>

datatype ConditionStatus = ConditionTrue | ConditionFalse | ConditionUnknown

record Condition =
  Type :: string
  Status :: ConditionStatus
  Reason :: string
  Message :: string

definition getInitializedCondition :: "string \<Rightarrow> string \<Rightarrow> Condition" where
  "getInitializedCondition reason message =
     \<lparr>Type = conditionTypeInitialized, Status = ConditionTrue, Reason = reason,
      Message = message\<rparr>"

definition getRunningCondition :: "ConditionStatus \<Rightarrow> string \<Rightarrow> string \<Rightarrow> Condition" where
  "getRunningCondition status reason message =
     \<lparr>Type = conditionTypeRunning, Status = status, Reason = reason, Message = message\<rparr>"

fun SetStatusCondition :: "Condition list \<Rightarrow> Condition \<Rightarrow> Condition list" where
  "SetStatusCondition [] newCondition = [newCondition]"
| "SetStatusCondition (c # cs) newCondition =
     (if Type c = Type newCondition
      then c\<lparr>Status := Status newCondition, Reason := Reason newCondition,
              Message := Message newCondition\<rparr> # cs
      else c # SetStatusCondition cs newCondition)"

text \<open>
  Modelled from the spec: \<^verbatim>\<open>processedGeneration\<close>, the annotation key
  \<^verbatim>\<open>ServiceIntegrationHandler.createOrUpdate\<close> writes, is not declared in the sources.
  Spec, section 6: the "generation processed" key holds the string-encoded decimal
  generation number, which is what the handler stores under it; it is taken to be the key
  \<^verbatim>\<open>processedGenerationAnnotation\<close> of the helper file.
\<close>

definition processedGeneration :: string where
  "processedGeneration = processedGenerationAnnotation"

record ServiceIntegration = ObjectMeta +
  Spec_Project :: string
  Spec_IntegrationType :: string
  Spec_DestinationEndpointID :: string
  Spec_DestinationServiceName :: string
  Spec_SourceEndpointID :: string
  Spec_SourceServiceName :: string
  Spec_DatadogUserConfig :: gvalue
  Spec_KafkaConnectUserConfig :: gvalue
  Spec_KafkaLogsUserConfig :: gvalue
  Spec_MetricsUserConfig :: gvalue
  Status_ID :: string
  Status_Conditions :: "Condition list"

datatype client_Object = ServiceIntegration_Object ServiceIntegration | Other_Object Object

text \<open>The provider library: the two requests, the integration it answers with, and the two
  calls of \<^verbatim>\<open>h.client.ServiceIntegrations\<close>, each answering with a pointer and an error.\<close>

record CreateServiceIntegrationRequest =
  DestinationEndpointID :: "string option"
  DestinationService :: "string option"
  IntegrationType :: string
  SourceEndpointID :: "string option"
  SourceService :: "string option"
  UserConfig :: "(string \<times> gvalue) list option"

record UpdateServiceIntegrationRequest =
  Update_UserConfig :: "(string \<times> gvalue) list option"

record aiven_ServiceIntegration =
  ServiceIntegrationID :: string

record ServiceIntegrations =
  Create :: "string \<Rightarrow> CreateServiceIntegrationRequest \<Rightarrow>
               aiven_ServiceIntegration option \<times> error option"
  Update :: "string \<Rightarrow> string \<Rightarrow> UpdateServiceIntegrationRequest \<Rightarrow>
               aiven_ServiceIntegration option \<times> error option"

definition toOptionalStringPointer :: "string \<Rightarrow> string option" where
  "toOptionalStringPointer s = (if s = [] then None else Some s)"

definition convert :: "client_Object \<Rightarrow> error + ServiceIntegration" where
  "convert i =
     (case i of
        ServiceIntegration_Object si \<Rightarrow> Inr si
      | Other_Object x \<Rightarrow> Inl (HandlerError ''cannot convert object to ServiceIntegration'' False))"

text \<open>\<^verbatim>\<open>UserConfigurationToAPI(...).(map[string]interface{})\<close>: the assertion panics on
  anything but the map.\<close>

definition as_map :: "panic + gvalue \<Rightarrow> panic + (string \<times> gvalue) list option" where
  "as_map r =
     (case r of
        Inl p \<Rightarrow> Inl p
      | Inr (Map m) \<Rightarrow> Inr (Some m)
      | Inr v \<Rightarrow> Inl (Panic ''interface conversion: interface {} is not map[string]interface {}''))"

definition getUserConfig :: "ServiceIntegration \<Rightarrow> panic + (string \<times> gvalue) list option" where
  "getUserConfig int' =
     (if Spec_IntegrationType int' = ''datadog'' then
        as_map (UserConfigurationToAPI (Spec_DatadogUserConfig int'))
      else if Spec_IntegrationType int' = ''kafka_connect'' then
        as_map (UserConfigurationToAPI (Spec_KafkaConnectUserConfig int'))
      else if Spec_IntegrationType int' = ''kafka_logs'' then
        as_map (UserConfigurationToAPI (Spec_KafkaLogsUserConfig int'))
      else if Spec_IntegrationType int' = ''metrics'' then
        as_map (UserConfigurationToAPI (Spec_MetricsUserConfig int'))
      else Inr None)"

text \<open>
  Lines 508 to 539: \<^verbatim>\<open>integration\<close> is declared as a nil pointer. The create branch
  discards the pointer that \<^verbatim>\<open>Create\<close> answers with (\<^verbatim>\<open>_, err = ...\<close>); the update
  branch assigns it. The result is a panic, an early \<^verbatim>\<open>return\<close> with its two operands,
  or the value of \<^verbatim>\<open>integration\<close> with which line 541 is reached.
\<close>

definition createOrUpdate_request ::
  "ServiceIntegrations \<Rightarrow> ServiceIntegration \<Rightarrow>
     panic + ((ServiceIntegration option \<times> error option) + aiven_ServiceIntegration option)" where
  "createOrUpdate_request api si =
     (let integration = None
      in if Status_ID si = [] then
           (case getUserConfig si of
              Inl p \<Rightarrow> Inl p
            | Inr uc \<Rightarrow>
                let (discarded, err) =
                      Create api (Spec_Project si)
                        \<lparr>DestinationEndpointID = toOptionalStringPointer (Spec_DestinationEndpointID si),
                         DestinationService = toOptionalStringPointer (Spec_DestinationServiceName si),
                         IntegrationType = Spec_IntegrationType si,
                         SourceEndpointID = toOptionalStringPointer (Spec_SourceEndpointID si),
                         SourceService = toOptionalStringPointer (Spec_SourceServiceName si),
                         UserConfig = uc\<rparr>
                in (case err of
                      Some e \<Rightarrow>
                        Inr (Inl (None, Some (Errorf ''cannot createOrUpdate service integration: '' e)))
                    | None \<Rightarrow> Inr (Inr integration)))
         else
           (case getUserConfig si of
              Inl p \<Rightarrow> Inl p
            | Inr uc \<Rightarrow>
                let (integration, err) =
                      Update api (Spec_Project si) (Status_ID si) \<lparr>Update_UserConfig = uc\<rparr>
                in (case err of
                      Some e \<Rightarrow>
                        if Contains (Error e) ''user config not changed'' then Inr (Inl (None, None))
                        else Inr (Inl (None, Some e))
                    | None \<Rightarrow> Inr (Inr integration))))"

text \<open>Lines 541 to 554: \<^verbatim>\<open>integration.ServiceIntegrationID\<close> dereferences the pointer.\<close>

definition createOrUpdate_record ::
  "ServiceIntegration \<Rightarrow> aiven_ServiceIntegration option \<Rightarrow>
     panic + (ServiceIntegration option \<times> error option)" where
  "createOrUpdate_record si integration =
     (case integration of
        None \<Rightarrow> Inl (Panic ''invalid memory address or nil pointer dereference'')
      | Some it \<Rightarrow>
          let si = si\<lparr>Status_ID := ServiceIntegrationID it\<rparr>;
              si = si\<lparr>Status_Conditions :=
                       SetStatusCondition (Status_Conditions si)
                         (getInitializedCondition ''CreatedOrUpdate''
                            ''Instance was created or update on Aiven side'')\<rparr>;
              si = si\<lparr>Status_Conditions :=
                       SetStatusCondition (Status_Conditions si)
                         (getRunningCondition ConditionUnknown ''CreatedOrUpdate''
                            ''Instance was created or update on Aiven side, status remains unknown'')\<rparr>;
              si = si\<lparr>Annotations :=
                       (Annotations si)(processedGeneration \<mapsto> FormatInt (Generation si))\<rparr>
          in Inr (Some si, None))"

definition ServiceIntegrationHandler_createOrUpdate ::
  "ServiceIntegrations \<Rightarrow> client_Object \<Rightarrow> panic + (ServiceIntegration option \<times> error option)" where
  "ServiceIntegrationHandler_createOrUpdate api i =
     (case convert i of
        Inl err \<Rightarrow> Inr (None, Some err)
      | Inr si \<Rightarrow>
          (case createOrUpdate_request api si of
             Inl p \<Rightarrow> Inl p
           | Inr (Inl returned) \<Rightarrow> Inr returned
           | Inr (Inr integration) \<Rightarrow> createOrUpdate_record si integration))"

section \<open>Reading a pass\<close>

text \<open>The four components of what \<open>reconcileInstance\<close> returns.\<close>

definition result_of :: "'r \<times> 's \<times> 'o \<times> call list \<Rightarrow> 'r" where
  "result_of R = fst R"

definition secret_of :: "'r \<times> 's \<times> 'o \<times> call list \<Rightarrow> 's" where
  "secret_of R = fst (snd R)"

definition object_of :: "'r \<times> 's \<times> 'o \<times> call list \<Rightarrow> 'o" where
  "object_of R = fst (snd (snd R))"

definition calls_of :: "'r \<times> 's \<times> 'o \<times> call list \<Rightarrow> call list" where
  "calls_of R = snd (snd (snd R))"

text \<open>
  \<open>secret_protected p cs\<close> reads the calls \<open>cs\<close> of a pass from the first to the last.
  \<open>p\<close> says that the secret-protection finalizer is on the credential secret in the
  store: it becomes true with an update of the secret that succeeded and carried the
  finalizer. Every handler call and every update of the managed object must find \<open>p\<close>
  true.
\<close>

fun secret_protected :: "bool \<Rightarrow> call list \<Rightarrow> bool" where
  "secret_protected p [] = True"
| "secret_protected p (Updated_Secret s1 err # cs) =
     secret_protected (p \<or> err = None \<and> ContainsFinalizer s1 secretProtectionFinalizer) cs"
| "secret_protected p (Called_checkPreconditions x res # cs) = (p \<and> secret_protected p cs)"
| "secret_protected p (Called_createOrUpdate x res # cs) = (p \<and> secret_protected p cs)"
| "secret_protected p (Called_get x res # cs) = (p \<and> secret_protected p cs)"
| "secret_protected p (Called_delete x res # cs) = (p \<and> secret_protected p cs)"
| "secret_protected p (Updated_Object x err # cs) = (p \<and> secret_protected p cs)"
| "secret_protected p (c # cs) = secret_protected p cs"

fun is_createOrUpdate :: "call \<Rightarrow> bool" where
  "is_createOrUpdate (Called_createOrUpdate x res) = True"
| "is_createOrUpdate c = False"

fun failed_secret :: "call \<Rightarrow> bool" where
  "failed_secret (CreatedOrUpdated_Secret owner want (Some e)) = True"
| "failed_secret c = False"

text \<open>\<open>last_two cs a b\<close>: the pass ended with the call \<open>a\<close> followed by the call \<open>b\<close>.\<close>

fun last_two :: "call list \<Rightarrow> call \<Rightarrow> call \<Rightarrow> bool" where
  "last_two [] a b = False"
| "last_two [x] a b = False"
| "last_two [x, y] a b = (x = a \<and> y = b)"
| "last_two (x # y # z # cs) a b = last_two (y # z # cs) a b"

text \<open>
  What a pass with result \<open>r\<close>, object \<open>o1\<close> and calls \<open>cs\<close> has done with a call of
  \<^verbatim>\<open>createOrUpdate\<close> on \<open>x\<close> that answered \<open>(y, err)\<close>: \<open>x\<close> carries neither annotation,
  and when the handler failed the pass returned the error, left the object as the handler
  returned it, and ended with the call and the warning notification.
\<close>

definition stripped_then_aborted ::
  "Object \<Rightarrow> Object \<Rightarrow> error option \<Rightarrow> Result \<times> error option \<Rightarrow> Object \<Rightarrow> call list \<Rightarrow> bool" where
  "stripped_then_aborted x y err r o1 cs =
     (Annotations x processedGenerationAnnotation = None \<and>
      Annotations x instanceIsRunningAnnotation = None \<and>
      (\<forall>e. err = Some e \<longrightarrow>
         r = (Result_zero,
              Some (Errorf ''unable to create or update instance at aiven: ''
                      (Errorf ''unable to create or update aiven instance: '' e))) \<and>
         o1 = y \<and>
         last_two cs (Called_createOrUpdate x (y, err))
           (Event EventTypeWarning eventUnableToCreateOrUpdateAtAiven
              (''unable to create or update aiven instance: '' @ Error e))))"

text \<open>A call that writes the managed object to the store.\<close>

fun writes_object :: "call \<Rightarrow> bool" where
  "writes_object (Updated_Object x err) = True"
| "writes_object (Updated_Status x err) = True"
| "writes_object c = False"

text \<open>A call that writes to the store or reaches the provider: everything but a
  notification and a read of the store.\<close>

fun changes_state :: "call \<Rightarrow> bool" where
  "changes_state (Event ty reason msg) = False"
| "changes_state (Eventf ty reason msg) = False"
| "changes_state (Got_Object key got) = False"
| "changes_state (Got_Secret key got) = False"
| "changes_state c = True"

section \<open>Configuration structures\<close>

text \<open>
  An unset optional field is a nil pointer, an empty string, a nil slice, or a nested
  struct whose fields are all unset. A present scalar field is a pointer to an
  \<^verbatim>\<open>int64\<close>, a \<^verbatim>\<open>bool\<close> or a \<^verbatim>\<open>string\<close>, or a string that is not empty; \<open>flat\<close> is the
  value the mapping holds for it.
\<close>

fun unset :: "gvalue \<Rightarrow> bool" where
  "unset (Ptr p) = (p = None)"
| "unset (String s) = (s = [])"
| "unset (Slice xs) = (xs = None)"
| "unset (Struct fs) = list_all (\<lambda>f. unset (snd f)) fs"
| "unset v = False"

fun present_scalar :: "gvalue \<Rightarrow> bool" where
  "present_scalar (Ptr (Some (Int64 n))) = True"
| "present_scalar (Ptr (Some (Bool b))) = True"
| "present_scalar (Ptr (Some (String s))) = True"
| "present_scalar (String s) = (s \<noteq> [])"
| "present_scalar v = False"

fun flat :: "gvalue \<Rightarrow> gvalue" where
  "flat (Ptr (Some (Int64 n))) = Int64 n"
| "flat (Ptr (Some (Bool b))) = Bool b"
| "flat v = v"

definition field_name :: "string \<times> gvalue \<Rightarrow> string" where
  "field_name f = ReplaceAll (fst f) '',omitempty'' []"

section \<open>Concrete inputs\<close>

definition avn0 :: aiven_Client where
  "avn0 = \<lparr>APIKey = ''secret-token'', UserAgent = ''k8s-operator/''\<rparr>"

definition secret0 :: Secret where
  "secret0 = \<lparr>Name = ''aiven-token'', Namespace = ''default'', Generation = 0,
     DeletionTimestamp = None, Finalizers = [], Annotations = Map.empty,
     Data = [''token'' \<mapsto> ''secret-token'']\<rparr>"

definition obj_new :: Object where
  "obj_new = \<lparr>Name = ''pg'', Namespace = ''default'', Generation = 1,
     DeletionTimestamp = None, Finalizers = [], Annotations = Map.empty,
     AuthSecretRef_Name = ''aiven-token'', AuthSecretRef_Key = ''token''\<rparr>"

definition obj_processed :: Object where
  "obj_processed = \<lparr>Name = ''pg'', Namespace = ''default'', Generation = 1,
     DeletionTimestamp = None, Finalizers = [instanceDeletionFinalizer],
     Annotations = [processedGenerationAnnotation \<mapsto> ''1''],
     AuthSecretRef_Name = ''aiven-token'', AuthSecretRef_Key = ''token''\<rparr>"

definition obj_deleting :: Object where
  "obj_deleting = \<lparr>Name = ''pg'', Namespace = ''default'', Generation = 1,
     DeletionTimestamp = Some 1700000000, Finalizers = [instanceDeletionFinalizer],
     Annotations = Map.empty,
     AuthSecretRef_Name = ''aiven-token'', AuthSecretRef_Key = ''token''\<rparr>"

definition obj_stale :: Object where
  "obj_stale = \<lparr>Name = ''pg'', Namespace = ''default'', Generation = 2,
     DeletionTimestamp = Some 1700000000, Finalizers = [instanceDeletionFinalizer],
     Annotations = [processedGenerationAnnotation \<mapsto> ''1''],
     AuthSecretRef_Name = ''aiven-token'', AuthSecretRef_Key = ''token''\<rparr>"

text \<open>An object that was processed and running at generation 1 and whose specification
  was changed since: the store holds both annotations, the generation is 2.\<close>

definition obj_changed :: Object where
  "obj_changed = \<lparr>Name = ''pg'', Namespace = ''default'', Generation = 2,
     DeletionTimestamp = None, Finalizers = [instanceDeletionFinalizer],
     Annotations = [processedGenerationAnnotation \<mapsto> ''1'', instanceIsRunningAnnotation \<mapsto> ''true''],
     AuthSecretRef_Name = ''aiven-token'', AuthSecretRef_Key = ''token''\<rparr>"

definition invalid_token :: error where
  "invalid_token = HandlerError ''403: Invalid token'' False"

definition k8s_ok :: Client where
  "k8s_ok = \<lparr>Get_Object = (\<lambda>tr req. Inr obj_new),
     Get_Secret = (\<lambda>tr req. Inr secret0),
     Update_Secret = (\<lambda>tr s. None),
     Update_Object = (\<lambda>tr x. None),
     Status_Update = (\<lambda>tr x. None),
     CreateOrUpdate_Secret = (\<lambda>tr x s. None),
     NewTokenClient = (\<lambda>k ua. Inr \<lparr>APIKey = k, UserAgent = ua\<rparr>)\<rparr>"

definition k8s_status_fails :: Client where
  "k8s_status_fails = k8s_ok\<lparr>Status_Update := (\<lambda>tr x. Some (K8sError ''conflict'' False))\<rparr>"

definition k8s_secret_fails :: Client where
  "k8s_secret_fails = k8s_ok\<lparr>Update_Secret := (\<lambda>tr s. Some (K8sError ''conflict'' False))\<rparr>"

definition k8s_no_secret :: Client where
  "k8s_no_secret = k8s_ok\<lparr>Get_Secret := (\<lambda>tr req. Inl (K8sError ''secret not found'' True))\<rparr>"

definition k8s_no_client :: Client where
  "k8s_no_client = k8s_ok\<lparr>NewTokenClient := (\<lambda>k ua. Inl (ClientError ''cannot create client''))\<rparr>"

text \<open>A handler whose calls all succeed: create-or-update records the generation, the
  read-back marks the instance as running.\<close>

definition h_ok :: Handlers where
  "h_ok = \<lparr>createOrUpdate = (\<lambda>tr avn x.
       (x\<lparr>Annotations := (Annotations x)(processedGenerationAnnotation \<mapsto> FormatInt (Generation x))\<rparr>,
        None)),
     delete = (\<lambda>tr avn x. (True, None)),
     get = (\<lambda>tr avn x.
       (x\<lparr>Annotations := (Annotations x)(instanceIsRunningAnnotation \<mapsto> ''true'')\<rparr>, None, None)),
     checkPreconditions = (\<lambda>tr avn x. (True, None))\<rparr>"

text \<open>The provider rejects the credential: every call fails, and nothing is changed.\<close>

definition h_invalid_token :: Handlers where
  "h_invalid_token = \<lparr>createOrUpdate = (\<lambda>tr avn x. (x, Some invalid_token)),
     delete = (\<lambda>tr avn x. (False, Some invalid_token)),
     get = (\<lambda>tr avn x. (x, None, Some invalid_token)),
     checkPreconditions = (\<lambda>tr avn x. (True, None))\<rparr>"







text \<open>A handler whose create-or-update sets both annotations on the object and then
  fails.\<close>

definition h_marks_then_fails :: Handlers where
  "h_marks_then_fails = h_ok\<lparr>createOrUpdate := (\<lambda>tr avn x.
       (x\<lparr>Annotations := (Annotations x)
            (processedGenerationAnnotation \<mapsto> FormatInt (Generation x),
             instanceIsRunningAnnotation \<mapsto> ''true'')\<rparr>,
        Some invalid_token))\<rparr>"

definition config_unset :: gvalue where
  "config_unset = Struct
     [(''ip_filter,omitempty'', Slice None),
      (''kafka_version,omitempty'', String []),
      (''max_connections,omitempty'', Ptr None),
      (''private_access,omitempty'', Struct [(''prometheus,omitempty'', Ptr None)])]"

definition config_one :: gvalue where
  "config_one = Struct
     [(''ip_filter,omitempty'', Slice None),
      (''max_connections,omitempty'', Ptr (Some (Int64 100))),
      (''kafka_version,omitempty'', String []),
      (''private_access,omitempty'', Struct [(''prometheus,omitempty'', Ptr None)])]"

definition si_new :: ServiceIntegration where
  "si_new = \<lparr>Name = ''integration'', Namespace = ''default'', Generation = 1,
     DeletionTimestamp = None, Finalizers = [], Annotations = Map.empty,
     Spec_Project = ''my-project'', Spec_IntegrationType = ''metrics'',
     Spec_DestinationEndpointID = [], Spec_DestinationServiceName = ''influx'',
     Spec_SourceEndpointID = [], Spec_SourceServiceName = ''pg'',
     Spec_DatadogUserConfig = Struct [], Spec_KafkaConnectUserConfig = Struct [],
     Spec_KafkaLogsUserConfig = Struct [], Spec_MetricsUserConfig = config_unset,
     Status_ID = [], Status_Conditions = []\<rparr>"

definition api_ok :: ServiceIntegrations where
  "api_ok = \<lparr>Create = (\<lambda>project req. (Some \<lparr>ServiceIntegrationID = ''abc-123''\<rparr>, None)),
     Update = (\<lambda>project id' req. (Some \<lparr>ServiceIntegrationID = id'\<rparr>, None))\<rparr>"

section \<open>Properties\<close>

lemma finalizer_names_distinct [simp]:
  "instanceDeletionFinalizer \<noteq> secretProtectionFinalizer"
  "secretProtectionFinalizer \<noteq> instanceDeletionFinalizer"
  by (simp_all add: instanceDeletionFinalizer_def secretProtectionFinalizer_def)

lemma annotation_keys_distinct [simp]:
  "instanceIsRunningAnnotation \<noteq> processedGenerationAnnotation"
  "processedGenerationAnnotation \<noteq> instanceIsRunningAnnotation"
  by (simp_all add: instanceIsRunningAnnotation_def processedGenerationAnnotation_def)

lemma IsZero_simps [simp]: "IsZero None" "IsZero (Some t) = (t = 0)"
  by (simp_all add: IsZero_def)

lemma FormatUint_not_empty: "FormatUint n \<noteq> []"
  by (subst FormatUint.simps) simp

lemma FormatInt_not_empty: "FormatInt i \<noteq> []"
  by (simp add: FormatInt_def FormatUint_not_empty)

lemma isAlreadyProcessed_iff:
  "isAlreadyProcessed o' =
     (Annotations o' processedGenerationAnnotation = Some (FormatInt (Generation o')))"
  using FormatInt_not_empty [of "Generation o'"]
  by (auto simp add: isAlreadyProcessed_def split: option.splits)

lemmas engine_defs =
  reconcileInstance_def reconcileInstance_finalizer_def reconcileInstance_update_def
  reconcileInstance_running_def updateInstanceStateAndSecretUntilRunning_def
  updateInstanceStateAndSecretUntilRunning_body_def
  createOrUpdateSecret_def createOrUpdateInstance_def checkPreconditions_i_def
  finalize_def finalize_finalised_def addFinalizer_def addFinalizer_Secret_def
  removeFinalizer_def canBeDeleted_def isAlreadyProcessed_iff isAlreadyRunning_def
  isMarkedForDeletion_def ContainsFinalizer_def AddFinalizer_def RemoveFinalizer_def
  multierror_Append_def ErrorOrNil_def requeueTimeout_def Second_def Result_zero_def

lemmas reading_defs = result_of_def secret_of_def object_of_def calls_of_def

lemma FormatInt_1: "FormatInt 1 = ''1''"
  by (simp add: FormatInt_def FormatUint.simps digit_def)

lemma FormatInt_2: "FormatInt 2 = ''2''"
  by (simp add: FormatInt_def FormatUint.simps digit_def)

subsection \<open>Deletion\<close>

text \<open>
  Whenever the handler's \<^verbatim>\<open>delete\<close> answers \<open>finalised = False\<close>, with or without an
  error, \<open>finalize\<close> leaves the object as it is and makes no update of it: the check of
  \<open>finalised\<close> comes after the check of the error and before the removal.
\<close>

lemma finalize_not_finalised:
  "delete h (tr @ [Event EventTypeNormal eventTryingToDeleteAtAiven
                     ''trying to delete instance at aiven'']) avn o' = (False, err) \<Longrightarrow>
   finalize h k8s avn o' tr = (r, o1, cs) \<Longrightarrow>
   o1 = o' \<and> (\<forall>x e. Updated_Object x e \<notin> set cs)"
  by (auto simp add: finalize_def finalize_finalised_def Let_def split: option.splits if_splits)

text \<open>
  C1: an object marked for deletion with the deletion finalizer present, never processed and
  never marked running; the handler's \<^verbatim>\<open>delete\<close> fails with an error whose text contains
  "Invalid token", so that \<open>canBeDeleted\<close> holds. The pass calls \<^verbatim>\<open>delete\<close>, and then
  returns a requeue after ten seconds with no error; the object still carries the deletion
  finalizer and no update of the object was made. The finalizer is not removed despite
  the error.
\<close>

theorem finalize_forced_removal_requeues:
  "isMarkedForDeletion obj_deleting \<and>
   ContainsFinalizer obj_deleting instanceDeletionFinalizer \<and>
   \<not> isAlreadyProcessed obj_deleting \<and> \<not> isAlreadyRunning obj_deleting \<and>
   Contains (Error invalid_token) ''Invalid token'' \<and>
   canBeDeleted obj_deleting (Some invalid_token) \<and>
   reconcileInstance h_invalid_token k8s_ok avn0 secret0 obj_deleting [] =
     ((\<lparr>Requeue = True, RequeueAfter = 10000000000\<rparr>, None), secret0, obj_deleting,
      [Event EventTypeNormal eventReconciliationStarted ''starting reconciliation'',
       Event EventTypeNormal eventTryingToDeleteAtAiven ''trying to delete instance at aiven'',
       Called_delete obj_deleting (False, Some invalid_token)])"
  by (simp add: engine_defs h_invalid_token_def obj_deleting_def invalid_token_def FormatInt_1)

text \<open>What \<open>canBeDeleted\<close> does guarantee: an object whose "generation processed"
  annotation equals its current generation never qualifies.\<close>

lemma canBeDeleted_processed:
  "isAlreadyProcessed o' \<Longrightarrow> \<not> canBeDeleted o' (Some e)"
  by (simp add: canBeDeleted_def)

text \<open>
  C6: an object whose "generation processed" annotation is set, to the generation 1 that
  was processed, and whose current generation is 2; it is not marked running. For a
  delete error whose text contains "Invalid token", \<open>canBeDeleted\<close> returns true: the
  object qualifies for forced removal although a generation of it was processed.
\<close>

theorem canBeDeleted_stale_generation:
  "Annotations obj_stale processedGenerationAnnotation = Some ''1'' \<and>
   Generation obj_stale = 2 \<and>
   canBeDeleted obj_stale (Some invalid_token)"
  by (simp add: canBeDeleted_def isAlreadyProcessed_iff isAlreadyRunning_def obj_stale_def
      invalid_token_def FormatInt_2)

subsection \<open>The running check\<close>

text \<open>What the caller receives is what the body returned; the outcome of the two updates
  of the deferred function has no part in it.\<close>

lemma returned_is_body:
  "fst (updateInstanceStateAndSecretUntilRunning h k8s avn o' tr) =
   fst (updateInstanceStateAndSecretUntilRunning_body h k8s avn o' tr)"
  by (simp add: updateInstanceStateAndSecretUntilRunning_def Let_def split: prod.splits)

text \<open>
  C2: the read-back succeeds and marks the object as running; the status update fails,
  the update of the object succeeds. Both updates are attempted, in this order, and the
  local variable ends as the combined error holding the failure of the status update.
  The caller of \<open>updateInstanceStateAndSecretUntilRunning\<close> receives \<open>(True, None)\<close>: the
  persistence failure is not surfaced.
\<close>

theorem persistence_failure_not_returned:
  "updateInstanceStateAndSecretUntilRunning h_ok k8s_status_fails avn0 obj_processed [] =
     ((True, None), Some [K8sError ''conflict'' False],
      obj_processed\<lparr>Annotations :=
        (Annotations obj_processed)(instanceIsRunningAnnotation \<mapsto> ''true'')\<rparr>,
      [Called_get obj_processed
         (obj_processed\<lparr>Annotations :=
            (Annotations obj_processed)(instanceIsRunningAnnotation \<mapsto> ''true'')\<rparr>, None, None),
       Updated_Status
         (obj_processed\<lparr>Annotations :=
            (Annotations obj_processed)(instanceIsRunningAnnotation \<mapsto> ''true'')\<rparr>)
         (Some (K8sError ''conflict'' False)),
       Updated_Object
         (obj_processed\<lparr>Annotations :=
            (Annotations obj_processed)(instanceIsRunningAnnotation \<mapsto> ''true'')\<rparr>)
         None])"
  by (simp add: engine_defs h_ok_def k8s_status_fails_def k8s_ok_def Let_def)

subsection \<open>Create-or-update\<close>

lemma isAlreadyProcessed_AddFinalizer [simp]:
  "isAlreadyProcessed (AddFinalizer x f) = isAlreadyProcessed x"
  by (simp add: isAlreadyProcessed_def AddFinalizer_def)

lemma body_no_createOrUpdate:
  "updateInstanceStateAndSecretUntilRunning_body h k8s avn o' tr = (ret, lerr, o1, cs) \<Longrightarrow>
   \<not> list_ex is_createOrUpdate cs"
  by (auto simp add: updateInstanceStateAndSecretUntilRunning_body_def createOrUpdateSecret_def
      Let_def split: prod.splits option.splits)

lemma upd_no_createOrUpdate:
  "updateInstanceStateAndSecretUntilRunning h k8s avn o' tr = (ret, lerr, o1, cs) \<Longrightarrow>
   \<not> list_ex is_createOrUpdate cs"
  by (auto simp add: updateInstanceStateAndSecretUntilRunning_def Let_def split: prod.splits
      dest: body_no_createOrUpdate)

lemma running_no_createOrUpdate:
  "reconcileInstance_running h k8s avn o' tr = (r, o1, cs) \<Longrightarrow> \<not> list_ex is_createOrUpdate cs"
  by (auto simp add: reconcileInstance_running_def Let_def split: prod.splits option.splits if_splits
      dest: upd_no_createOrUpdate)

lemma finalize_no_createOrUpdate:
  "finalize h k8s avn o' tr = (r, o1, cs) \<Longrightarrow>
   \<not> list_ex is_createOrUpdate cs \<and> (\<forall>x res. Called_checkPreconditions x res \<notin> set cs)"
  by (auto simp add: finalize_def finalize_finalised_def removeFinalizer_def Let_def
      split: prod.splits option.splits if_splits)

lemma update_trigger:
  "reconcileInstance_update h k8s avn o' tr = (r, o1, cs) \<Longrightarrow>
   (isAlreadyProcessed o' \<longrightarrow> \<not> list_ex is_createOrUpdate cs) \<and>
   (Called_checkPreconditions y (True, None) \<in> set cs \<longrightarrow>
      isAlreadyProcessed o' \<or> list_ex is_createOrUpdate cs)"
  by (auto simp add: reconcileInstance_update_def checkPreconditions_i_def createOrUpdateInstance_def
      Let_def split: prod.splits option.splits if_splits dest: running_no_createOrUpdate)

lemma finalizer_trigger:
  "reconcileInstance_finalizer h k8s avn o' tr = (r, o1, cs) \<Longrightarrow>
   (isAlreadyProcessed o' \<longrightarrow> \<not> list_ex is_createOrUpdate cs) \<and>
   (Called_checkPreconditions y (True, None) \<in> set cs \<longrightarrow>
      isAlreadyProcessed o' \<or> list_ex is_createOrUpdate cs)"
  by (auto simp add: reconcileInstance_finalizer_def addFinalizer_def Let_def
      split: prod.splits option.splits if_splits dest!: update_trigger [where y = y])

lemma reconcile_trigger:
  "reconcileInstance h k8s avn s o' tr = (r, s1, o1, cs) \<Longrightarrow>
   (isAlreadyProcessed o' \<longrightarrow> \<not> list_ex is_createOrUpdate cs) \<and>
   (Called_checkPreconditions y (True, None) \<in> set cs \<longrightarrow>
      isAlreadyProcessed o' \<or> list_ex is_createOrUpdate cs)"
  by (auto simp add: reconcileInstance_def addFinalizer_Secret_def Let_def
      split: prod.splits option.splits if_splits
      dest!: finalizer_trigger [where y = y] dest: finalize_no_createOrUpdate)

text \<open>
  C3: when the "generation processed" annotation of the object equals the decimal text of
  its current generation, a pass of \<open>reconcileInstance\<close> makes no call of the handler's
  \<^verbatim>\<open>createOrUpdate\<close>, whatever the handler and the store answer. And in a pass that got
  through the precondition gate, \<^verbatim>\<open>createOrUpdate\<close> is called exactly when the annotation
  differs from the current generation: the mismatch is the only trigger.
\<close>

theorem processed_generation_no_createOrUpdate:
  "(Annotations o' processedGenerationAnnotation = Some (FormatInt (Generation o')) \<longrightarrow>
      \<not> list_ex is_createOrUpdate (calls_of (reconcileInstance h k8s avn s o' tr))) \<and>
   (Called_checkPreconditions y (True, None) \<in> set (calls_of (reconcileInstance h k8s avn s o' tr)) \<longrightarrow>
      list_ex is_createOrUpdate (calls_of (reconcileInstance h k8s avn s o' tr)) =
      (Annotations o' processedGenerationAnnotation \<noteq> Some (FormatInt (Generation o'))))"
proof -
  obtain r s1 o1 cs where R: "reconcileInstance h k8s avn s o' tr = (r, s1, o1, cs)"
    by (cases "reconcileInstance h k8s avn s o' tr") auto
  have p: "isAlreadyProcessed o' =
      (Annotations o' processedGenerationAnnotation = Some (FormatInt (Generation o')))"
    by (simp add: isAlreadyProcessed_iff)
  show ?thesis
    unfolding calls_of_def R p [symmetric] using reconcile_trigger [OF R, of y] by auto
qed

theorem processed_generation_no_createOrUpdate_witness:
  "Annotations obj_processed processedGenerationAnnotation =
     Some (FormatInt (Generation obj_processed)) \<and>
   \<not> list_ex is_createOrUpdate
       (calls_of (reconcileInstance h_ok k8s_ok avn0 secret0 obj_processed [])) \<and>
   Annotations obj_new processedGenerationAnnotation \<noteq> Some (FormatInt (Generation obj_new)) \<and>
   Called_checkPreconditions (AddFinalizer obj_new instanceDeletionFinalizer) (True, None) \<in>
       set (calls_of (reconcileInstance h_ok k8s_ok avn0 secret0 obj_new [])) \<and>
   list_ex is_createOrUpdate (calls_of (reconcileInstance h_ok k8s_ok avn0 secret0 obj_new []))"
proof -
  have a: "Annotations obj_processed processedGenerationAnnotation =
      Some (FormatInt (Generation obj_processed))"
    by (simp add: obj_processed_def FormatInt_1)
  have c: "Annotations obj_new processedGenerationAnnotation \<noteq> Some (FormatInt (Generation obj_new))"
    by (simp add: obj_new_def)
  have d: "Called_checkPreconditions (AddFinalizer obj_new instanceDeletionFinalizer) (True, None) \<in>
       set (calls_of (reconcileInstance h_ok k8s_ok avn0 secret0 obj_new []))"
    by (simp add: engine_defs reading_defs h_ok_def k8s_ok_def secret0_def obj_new_def
        FormatInt_1 Let_def)
  show ?thesis
    using a c d
      processed_generation_no_createOrUpdate
        [where o' = obj_processed and h = h_ok and ?k8s.0 = k8s_ok and avn = avn0
           and s = secret0 and tr = "[]"]
      processed_generation_no_createOrUpdate
        [where o' = obj_new and y = "AddFinalizer obj_new instanceDeletionFinalizer" and h = h_ok
           and ?k8s.0 = k8s_ok and avn = avn0 and s = secret0 and tr = "[]"]
    by blast
qed

lemma last_two_Cons: "last_two cs a b \<Longrightarrow> last_two (c # cs) a b"
  by (induction cs a b rule: last_two.induct) auto

lemma last_two_append: "last_two cs a b \<Longrightarrow> last_two (pre @ cs) a b"
  by (induction pre) (auto intro: last_two_Cons)

lemma stripped_then_aborted_append:
  "stripped_then_aborted x y err r o1 cs \<Longrightarrow> stripped_then_aborted x y err r o1 (pre @ cs)"
  by (auto simp add: stripped_then_aborted_def intro: last_two_append)

lemma stripped_then_aborted_Cons:
  "stripped_then_aborted x y err r o1 cs \<Longrightarrow> stripped_then_aborted x y err r o1 (c # cs)"
  using stripped_then_aborted_append [of x y err r o1 cs "[c]"] by simp

lemma running_calls_no_createOrUpdate:
  "reconcileInstance_running h k8s avn o' tr = (r, o1, cs) \<Longrightarrow>
   Called_createOrUpdate x res \<notin> set cs"
  by (auto simp add: reconcileInstance_running_def updateInstanceStateAndSecretUntilRunning_def
       updateInstanceStateAndSecretUntilRunning_body_def createOrUpdateSecret_def Let_def
      split: prod.splits option.splits if_splits)

lemma finalize_calls_no_createOrUpdate:
  "finalize h k8s avn o' tr = (r, o1, cs) \<Longrightarrow> Called_createOrUpdate x res \<notin> set cs"
  by (auto simp add: finalize_def finalize_finalised_def removeFinalizer_def Let_def
      split: prod.splits option.splits if_splits)

lemma update_strip:
  "reconcileInstance_update h k8s avn o' tr = (r, o1, cs) \<Longrightarrow>
   Called_createOrUpdate x (y, err) \<in> set cs \<Longrightarrow> stripped_then_aborted x y err r o1 cs"
  by (auto simp add: reconcileInstance_update_def checkPreconditions_i_def
      createOrUpdateInstance_def stripped_then_aborted_def Let_def
      split: prod.splits option.splits if_splits dest: running_calls_no_createOrUpdate)

lemma finalizer_strip:
  "reconcileInstance_finalizer h k8s avn o' tr = (r, o1, cs) \<Longrightarrow>
   Called_createOrUpdate x (y, err) \<in> set cs \<Longrightarrow> stripped_then_aborted x y err r o1 cs"
  by (auto simp add: reconcileInstance_finalizer_def addFinalizer_def Let_def
      split: prod.splits option.splits if_splits
      dest!: update_strip [where x = x and y = y and err = err]
      intro!: stripped_then_aborted_Cons)

lemma reconcile_strip:
  "reconcileInstance h k8s avn s o' tr = (r, s1, o1, cs) \<Longrightarrow>
   Called_createOrUpdate x (y, err) \<in> set cs \<Longrightarrow> stripped_then_aborted x y err r o1 cs"
  by (auto simp add: reconcileInstance_def addFinalizer_Secret_def Let_def
      split: prod.splits option.splits if_splits
      dest!: finalizer_strip [where x = x and y = y and err = err]
      dest: finalize_calls_no_createOrUpdate
      intro!: stripped_then_aborted_Cons)

lemma update_failed_writes:
  "reconcileInstance_update h k8s avn o' tr = (r, o1, cs) \<Longrightarrow>
   Called_createOrUpdate x (y, Some e) \<in> set cs \<Longrightarrow>
   Updated_Object z e1 \<notin> set cs \<and> Updated_Status z e1 \<notin> set cs"
  by (auto simp add: reconcileInstance_update_def checkPreconditions_i_def
      createOrUpdateInstance_def Let_def
      split: prod.splits option.splits if_splits dest: running_calls_no_createOrUpdate)

lemma finalizer_failed_writes:
  "reconcileInstance_finalizer h k8s avn o' tr = (r, o1, cs) \<Longrightarrow>
   Called_createOrUpdate x (y, Some e) \<in> set cs \<Longrightarrow>
   (Updated_Object z e1 \<in> set cs \<longrightarrow> z = AddFinalizer o' instanceDeletionFinalizer) \<and>
   Updated_Status z e1 \<notin> set cs"
  by (auto simp add: reconcileInstance_finalizer_def addFinalizer_def Let_def
      split: prod.splits option.splits if_splits
      dest!: update_failed_writes [where x = x and y = y and e = e and z = z and ?e1.0 = e1])

lemma reconcile_failed_writes:
  "reconcileInstance h k8s avn s o' tr = (r, s1, o1, cs) \<Longrightarrow>
   Called_createOrUpdate x (y, Some e) \<in> set cs \<Longrightarrow>
   (Updated_Object z e1 \<in> set cs \<longrightarrow> z = AddFinalizer o' instanceDeletionFinalizer) \<and>
   Updated_Status z e1 \<notin> set cs"
  by (auto simp add: reconcileInstance_def addFinalizer_Secret_def Let_def
      split: prod.splits option.splits if_splits
      dest!: finalizer_failed_writes [where x = x and y = y and e = e and z = z and ?e1.0 = e1]
      dest: finalize_calls_no_createOrUpdate)

text \<open>
  Against C5 as the spec states it, "the annotations remain cleared": \<open>obj_changed\<close> is
  at generation 2 and the store holds it with "generation processed" = 1 and "instance
  running". The handler's \<^verbatim>\<open>createOrUpdate\<close> fails and the pass returns the error. The
  pass writes the object to the store at no point, so the store keeps both annotations:
  the strip was made in memory only. And with a handler that sets both annotations
  before it fails, the object in memory ends as processed and running as well.
\<close>

theorem failed_createOrUpdate_annotations_not_cleared:
  "result_of (reconcileInstance h_invalid_token k8s_ok avn0 secret0 obj_changed []) =
     (Result_zero,
      Some (Errorf ''unable to create or update instance at aiven: ''
              (Errorf ''unable to create or update aiven instance: '' invalid_token))) \<and>
   \<not> list_ex writes_object
       (calls_of (reconcileInstance h_invalid_token k8s_ok avn0 secret0 obj_changed [])) \<and>
   Annotations obj_changed processedGenerationAnnotation = Some ''1'' \<and>
   Annotations obj_changed instanceIsRunningAnnotation = Some ''true'' \<and>
   isAlreadyRunning obj_changed \<and>
   result_of (reconcileInstance h_marks_then_fails k8s_ok avn0 secret0 obj_changed []) =
     (Result_zero,
      Some (Errorf ''unable to create or update instance at aiven: ''
              (Errorf ''unable to create or update aiven instance: '' invalid_token))) \<and>
   isAlreadyProcessed
     (object_of (reconcileInstance h_marks_then_fails k8s_ok avn0 secret0 obj_changed [])) \<and>
   isAlreadyRunning
     (object_of (reconcileInstance h_marks_then_fails k8s_ok avn0 secret0 obj_changed []))"
proof -
  have a: "result_of (reconcileInstance h_invalid_token k8s_ok avn0 secret0 obj_changed []) =
     (Result_zero,
      Some (Errorf ''unable to create or update instance at aiven: ''
              (Errorf ''unable to create or update aiven instance: '' invalid_token)))"
    by (simp add: engine_defs reading_defs h_invalid_token_def k8s_ok_def secret0_def
        obj_changed_def FormatInt_2 Let_def)
  have b: "\<not> list_ex writes_object
       (calls_of (reconcileInstance h_invalid_token k8s_ok avn0 secret0 obj_changed []))"
    by (simp add: engine_defs reading_defs h_invalid_token_def k8s_ok_def secret0_def
        obj_changed_def FormatInt_2 Let_def)
  have c: "Annotations obj_changed processedGenerationAnnotation = Some ''1'' \<and>
      Annotations obj_changed instanceIsRunningAnnotation = Some ''true'' \<and>
      isAlreadyRunning obj_changed"
    by (simp add: obj_changed_def isAlreadyRunning_def)
  have e: "isAlreadyProcessed
     (object_of (reconcileInstance h_marks_then_fails k8s_ok avn0 secret0 obj_changed []))"
    by (simp add: engine_defs reading_defs h_marks_then_fails_def h_ok_def k8s_ok_def secret0_def
        obj_changed_def FormatInt_2 Let_def)
  have f: "isAlreadyRunning
     (object_of (reconcileInstance h_marks_then_fails k8s_ok avn0 secret0 obj_changed []))"
    by (simp add: engine_defs reading_defs h_marks_then_fails_def h_ok_def k8s_ok_def secret0_def
        obj_changed_def FormatInt_2 Let_def)
  have g: "result_of (reconcileInstance h_marks_then_fails k8s_ok avn0 secret0 obj_changed []) =
     (Result_zero,
      Some (Errorf ''unable to create or update instance at aiven: ''
              (Errorf ''unable to create or update aiven instance: '' invalid_token)))"
    by (simp add: engine_defs reading_defs h_marks_then_fails_def h_ok_def k8s_ok_def secret0_def
        obj_changed_def FormatInt_2 Let_def)
  show ?thesis
    using a b c e f g by simp
qed

text \<open>
  C5 (amended): in every pass, the object \<open>x\<close> on which the handler's \<^verbatim>\<open>createOrUpdate\<close>
  is called carries neither the "generation processed" nor the "instance running"
  annotation, so it counts as neither processed nor running; and the object \<open>o'\<close> the
  pass started from did not count as processed. When the handler answers with an error
  \<open>e\<close>, the pass returns that error (wrapped twice) with the zero result, the handler call
  and the warning notification are its last two calls, and the object in memory is the
  object \<open>y\<close> as the handler left it. Such a pass never updates the status, and the only
  update of the object it can have made is the addition of the deletion finalizer
  before the strip, which carries the annotations and the generation the pass started
  from: the strip never reaches the store. The retry comes from the stored annotation,
  which still differs from the generation: every pass on an object \<open>o2\<close> with these
  annotations and this generation that gets through the precondition gate calls
  \<^verbatim>\<open>createOrUpdate\<close>.
\<close>

theorem createOrUpdate_on_stripped_object:
  "Called_createOrUpdate x (y, err) \<in> set (calls_of (reconcileInstance h k8s avn s o' tr)) \<Longrightarrow>
   Annotations x processedGenerationAnnotation = None \<and>
   Annotations x instanceIsRunningAnnotation = None \<and>
   \<not> isAlreadyProcessed x \<and> \<not> isAlreadyRunning x \<and> \<not> isAlreadyProcessed o' \<and>
   (\<forall>e. err = Some e \<longrightarrow>
      result_of (reconcileInstance h k8s avn s o' tr) =
        (Result_zero,
         Some (Errorf ''unable to create or update instance at aiven: ''
                 (Errorf ''unable to create or update aiven instance: '' e))) \<and>
      object_of (reconcileInstance h k8s avn s o' tr) = y \<and>
      last_two (calls_of (reconcileInstance h k8s avn s o' tr))
        (Called_createOrUpdate x (y, err))
        (Event EventTypeWarning eventUnableToCreateOrUpdateAtAiven
           (''unable to create or update aiven instance: '' @ Error e)) \<and>
      (\<forall>z e1. Updated_Status z e1 \<notin> set (calls_of (reconcileInstance h k8s avn s o' tr))) \<and>
      (\<forall>z e1. Updated_Object z e1 \<in> set (calls_of (reconcileInstance h k8s avn s o' tr)) \<longrightarrow>
         z = AddFinalizer o' instanceDeletionFinalizer \<and>
         Annotations z = Annotations o' \<and> Generation z = Generation o')) \<and>
   (Annotations o2 = Annotations o' \<and> Generation o2 = Generation o' \<and>
    Called_checkPreconditions z2 (True, None) \<in>
      set (calls_of (reconcileInstance h2 k2 avn2 s2 o2 tr2)) \<longrightarrow>
      list_ex is_createOrUpdate (calls_of (reconcileInstance h2 k2 avn2 s2 o2 tr2)))"
proof -
  assume c: "Called_createOrUpdate x (y, err) \<in> set (calls_of (reconcileInstance h k8s avn s o' tr))"
  obtain r s1 o1 cs where R: "reconcileInstance h k8s avn s o' tr = (r, s1, o1, cs)"
    by (cases "reconcileInstance h k8s avn s o' tr") auto
  obtain r2 s3 o3 cs2 where R2: "reconcileInstance h2 k2 avn2 s2 o2 tr2 = (r2, s3, o3, cs2)"
    by (cases "reconcileInstance h2 k2 avn2 s2 o2 tr2") auto
  from c R have cs: "Called_createOrUpdate x (y, err) \<in> set cs"
    by (simp add: calls_of_def)
  then have "list_ex is_createOrUpdate cs"
    unfolding list_ex_iff by (rule bexI [rotated]) simp
  with reconcile_trigger [OF R] have np: "\<not> isAlreadyProcessed o'"
    by blast
  have w: "err = Some e \<Longrightarrow>
      Updated_Status z e1 \<notin> set cs \<and>
      (Updated_Object z e1 \<in> set cs \<longrightarrow>
         z = AddFinalizer o' instanceDeletionFinalizer \<and>
         Annotations z = Annotations o' \<and> Generation z = Generation o')" for e z e1
    using reconcile_failed_writes [OF R, of x y e z e1] cs by (auto simp add: AddFinalizer_def)
  have n: "Annotations o2 = Annotations o' \<Longrightarrow> Generation o2 = Generation o' \<Longrightarrow>
      Called_checkPreconditions z2 (True, None) \<in> set cs2 \<Longrightarrow> list_ex is_createOrUpdate cs2"
    using reconcile_trigger [OF R2, of z2] np by (simp add: isAlreadyProcessed_def)
  from reconcile_strip [OF R cs] np w n show ?thesis
    unfolding R R2 reading_defs stripped_then_aborted_def
    by (auto simp add: isAlreadyProcessed_iff isAlreadyRunning_def)
qed

theorem createOrUpdate_on_stripped_object_witness:
  "Called_createOrUpdate
      (obj_changed\<lparr>Annotations := Map.empty\<rparr>)
      (obj_changed\<lparr>Annotations := Map.empty\<rparr>, Some invalid_token)
     \<in> set (calls_of (reconcileInstance h_invalid_token k8s_ok avn0 secret0
                (obj_changed\<lparr>Finalizers := []\<rparr>) [])) \<and>
   \<not> isAlreadyProcessed (obj_changed\<lparr>Finalizers := []\<rparr>) \<and>
   result_of (reconcileInstance h_invalid_token k8s_ok avn0 secret0
                (obj_changed\<lparr>Finalizers := []\<rparr>) []) =
     (Result_zero,
      Some (Errorf ''unable to create or update instance at aiven: ''
              (Errorf ''unable to create or update aiven instance: '' invalid_token))) \<and>
   object_of (reconcileInstance h_invalid_token k8s_ok avn0 secret0
                (obj_changed\<lparr>Finalizers := []\<rparr>) []) =
     obj_changed\<lparr>Annotations := Map.empty\<rparr> \<and>
   Updated_Object obj_changed None
     \<in> set (calls_of (reconcileInstance h_invalid_token k8s_ok avn0 secret0
                (obj_changed\<lparr>Finalizers := []\<rparr>) [])) \<and>
   obj_changed = AddFinalizer (obj_changed\<lparr>Finalizers := []\<rparr>) instanceDeletionFinalizer \<and>
   Annotations obj_changed processedGenerationAnnotation = Some ''1'' \<and>
   Called_checkPreconditions obj_changed (True, None)
     \<in> set (calls_of (reconcileInstance h_ok k8s_ok avn0 secret0 obj_changed [])) \<and>
   list_ex is_createOrUpdate (calls_of (reconcileInstance h_ok k8s_ok avn0 secret0 obj_changed []))"
proof -
  have a: "Called_createOrUpdate
      (obj_changed\<lparr>Annotations := Map.empty\<rparr>)
      (obj_changed\<lparr>Annotations := Map.empty\<rparr>, Some invalid_token)
     \<in> set (calls_of (reconcileInstance h_invalid_token k8s_ok avn0 secret0
                (obj_changed\<lparr>Finalizers := []\<rparr>) []))"
    by (simp add: engine_defs reading_defs h_invalid_token_def k8s_ok_def secret0_def
        obj_changed_def FormatInt_2 Let_def)
  have b: "Updated_Object obj_changed None
     \<in> set (calls_of (reconcileInstance h_invalid_token k8s_ok avn0 secret0
                (obj_changed\<lparr>Finalizers := []\<rparr>) []))"
    by (simp add: engine_defs reading_defs h_invalid_token_def k8s_ok_def secret0_def
        obj_changed_def FormatInt_2 Let_def)
  have c: "Called_checkPreconditions obj_changed (True, None)
     \<in> set (calls_of (reconcileInstance h_ok k8s_ok avn0 secret0 obj_changed []))"
    by (simp add: engine_defs reading_defs h_ok_def k8s_ok_def secret0_def
        obj_changed_def FormatInt_2 Let_def)
  have d: "Annotations obj_changed = Annotations (obj_changed\<lparr>Finalizers := []\<rparr>) \<and>
      Generation obj_changed = Generation (obj_changed\<lparr>Finalizers := []\<rparr>) \<and>
      Annotations obj_changed processedGenerationAnnotation = Some ''1''"
    by (simp add: obj_changed_def)
  note T = createOrUpdate_on_stripped_object [OF a, where ?o2.0 = obj_changed
        and ?z2.0 = obj_changed and ?h2.0 = h_ok and ?k2.0 = k8s_ok and ?avn2.0 = avn0
        and ?s2.0 = secret0 and ?tr2.0 = "[]"]
  from T have e: "\<not> isAlreadyProcessed (obj_changed\<lparr>Finalizers := []\<rparr>)"
    by blast
  from T have f: "result_of (reconcileInstance h_invalid_token k8s_ok avn0 secret0
                (obj_changed\<lparr>Finalizers := []\<rparr>) []) =
     (Result_zero,
      Some (Errorf ''unable to create or update instance at aiven: ''
              (Errorf ''unable to create or update aiven instance: '' invalid_token)))"
    by blast
  from T have g: "object_of (reconcileInstance h_invalid_token k8s_ok avn0 secret0
                (obj_changed\<lparr>Finalizers := []\<rparr>) []) =
     obj_changed\<lparr>Annotations := Map.empty\<rparr>"
    by blast
  from T b have h: "obj_changed =
      AddFinalizer (obj_changed\<lparr>Finalizers := []\<rparr>) instanceDeletionFinalizer"
    by blast
  from T c d have i: "list_ex is_createOrUpdate
      (calls_of (reconcileInstance h_ok k8s_ok avn0 secret0 obj_changed []))"
    by blast
  from a b c d e f g h i show ?thesis
    by blast
qed

subsection \<open>Requeue\<close>

lemma failed_secret_iff [simp]:
  "failed_secret (CreatedOrUpdated_Secret ow w e) = (e \<noteq> None)"
  by (cases e) auto
















subsection \<open>Finalizer order\<close>

lemma secret_protected_True: "secret_protected True cs"
  by (induction True cs rule: secret_protected.induct) auto

lemma body_no_secret_update:
  "updateInstanceStateAndSecretUntilRunning_body h k8s avn o' tr = (ret, lerr, o1, cs) \<Longrightarrow>
   Updated_Secret s1 e \<notin> set cs"
  by (auto simp add: updateInstanceStateAndSecretUntilRunning_body_def createOrUpdateSecret_def
      Let_def split: prod.splits option.splits)

lemma upd_no_secret_update:
  "updateInstanceStateAndSecretUntilRunning h k8s avn o' tr = (ret, lerr, o1, cs) \<Longrightarrow>
   Updated_Secret s1 e \<notin> set cs"
  by (auto simp add: updateInstanceStateAndSecretUntilRunning_def Let_def split: prod.splits
      dest: body_no_secret_update)

lemma running_no_secret_update:
  "reconcileInstance_running h k8s avn o' tr = (r, o1, cs) \<Longrightarrow> Updated_Secret s1 e \<notin> set cs"
  by (auto simp add: reconcileInstance_running_def Let_def split: prod.splits option.splits if_splits
      dest: upd_no_secret_update)

lemma update_no_secret_update:
  "reconcileInstance_update h k8s avn o' tr = (r, o1, cs) \<Longrightarrow> Updated_Secret s1 e \<notin> set cs"
  by (auto simp add: reconcileInstance_update_def checkPreconditions_i_def createOrUpdateInstance_def
      Let_def split: prod.splits option.splits if_splits dest: running_no_secret_update)

lemma finalizer_no_secret_update:
  "reconcileInstance_finalizer h k8s avn o' tr = (r, o1, cs) \<Longrightarrow> Updated_Secret s1 e \<notin> set cs"
  by (auto simp add: reconcileInstance_finalizer_def addFinalizer_def Let_def
      split: prod.splits option.splits if_splits dest: update_no_secret_update)

lemma ContainsFinalizer_AddFinalizer: "ContainsFinalizer (AddFinalizer s f) f"
  by (simp add: ContainsFinalizer_def AddFinalizer_def)

lemma reconcile_secret_update:
  "reconcileInstance h k8s avn s o' tr = (r, s1, o1, cs) \<Longrightarrow> \<not> isMarkedForDeletion o' \<Longrightarrow>
   secret_protected (ContainsFinalizer s secretProtectionFinalizer) cs \<and>
   ContainsFinalizer s1 secretProtectionFinalizer \<and>
   (ContainsFinalizer s secretProtectionFinalizer \<longrightarrow>
      s1 = s \<and> Updated_Secret s2 e2 \<notin> set cs) \<and>
   (\<not> ContainsFinalizer s secretProtectionFinalizer \<longrightarrow>
      s1 = AddFinalizer s secretProtectionFinalizer \<and>
      take 2 cs =
        [Event EventTypeNormal eventReconciliationStarted ''starting reconciliation'',
         Updated_Secret (AddFinalizer s secretProtectionFinalizer)
           (Update_Secret k8s
              (tr @ [Event EventTypeNormal eventReconciliationStarted ''starting reconciliation''])
              (AddFinalizer s secretProtectionFinalizer))] \<and>
      (Updated_Secret s2 e2 \<in> set (drop 2 cs) \<longrightarrow> False) \<and>
      (Update_Secret k8s
         (tr @ [Event EventTypeNormal eventReconciliationStarted ''starting reconciliation''])
         (AddFinalizer s secretProtectionFinalizer) = Some e \<longrightarrow>
       r = (Result_zero, Some (Errorf ''unable to add finalizer to secret: '' e)) \<and>
       o1 = o' \<and> drop 2 cs = []))"
  by (auto simp add: reconcileInstance_def addFinalizer_Secret_def Let_def
      ContainsFinalizer_AddFinalizer secret_protected_True
      split: prod.splits option.splits if_splits dest: finalizer_no_secret_update)

text \<open>
  C8: for an object that is not marked for deletion, read the calls of a pass in order,
  starting from whether the secret as loaded carries the secret-protection finalizer.
  Every call of a handler method (\<^verbatim>\<open>checkPreconditions\<close>, \<^verbatim>\<open>createOrUpdate\<close>, \<^verbatim>\<open>get\<close>,
  \<^verbatim>\<open>delete\<close>) and every update of the managed object, the addition of the deletion
  finalizer included, comes when the finalizer is on the secret in the store: it was
  there from the start, or an update of the secret carrying it succeeded earlier in the
  pass. What the calls record of that update is what the store answered. When the secret
  carries the finalizer, the pass makes no update of the secret. When it does not, the
  pass starts with the notification and the update of the secret with the finalizer
  added, recorded with the answer of the store's \<^verbatim>\<open>Update\<close> to exactly that secret, and
  makes no other update of the secret; and when the store answers with an error, the
  pass ends there, with that error, the object untouched and these two calls only. In
  both cases the secret in memory carries the finalizer when the pass returns.
\<close>

theorem secret_finalizer_first:
  "\<not> isMarkedForDeletion o' \<Longrightarrow>
   secret_protected (ContainsFinalizer s secretProtectionFinalizer)
     (calls_of (reconcileInstance h k8s avn s o' tr)) \<and>
   ContainsFinalizer (secret_of (reconcileInstance h k8s avn s o' tr)) secretProtectionFinalizer \<and>
   (ContainsFinalizer s secretProtectionFinalizer \<longrightarrow>
      secret_of (reconcileInstance h k8s avn s o' tr) = s \<and>
      (\<forall>s2 e2. Updated_Secret s2 e2 \<notin> set (calls_of (reconcileInstance h k8s avn s o' tr)))) \<and>
   (\<not> ContainsFinalizer s secretProtectionFinalizer \<longrightarrow>
      secret_of (reconcileInstance h k8s avn s o' tr) = AddFinalizer s secretProtectionFinalizer \<and>
      take 2 (calls_of (reconcileInstance h k8s avn s o' tr)) =
        [Event EventTypeNormal eventReconciliationStarted ''starting reconciliation'',
         Updated_Secret (AddFinalizer s secretProtectionFinalizer)
           (Update_Secret k8s
              (tr @ [Event EventTypeNormal eventReconciliationStarted ''starting reconciliation''])
              (AddFinalizer s secretProtectionFinalizer))] \<and>
      (\<forall>s2 e2. Updated_Secret s2 e2 \<notin>
                 set (drop 2 (calls_of (reconcileInstance h k8s avn s o' tr)))) \<and>
      (\<forall>e. Update_Secret k8s
             (tr @ [Event EventTypeNormal eventReconciliationStarted ''starting reconciliation''])
             (AddFinalizer s secretProtectionFinalizer) = Some e \<longrightarrow>
           reconcileInstance h k8s avn s o' tr =
             ((Result_zero, Some (Errorf ''unable to add finalizer to secret: '' e)),
              AddFinalizer s secretProtectionFinalizer, o',
              [Event EventTypeNormal eventReconciliationStarted ''starting reconciliation'',
               Updated_Secret (AddFinalizer s secretProtectionFinalizer) (Some e)])))"
proof -
  assume m: "\<not> isMarkedForDeletion o'"
  obtain r s1 o1 cs where R: "reconcileInstance h k8s avn s o' tr = (r, s1, o1, cs)"
    by (cases "reconcileInstance h k8s avn s o' tr") auto
  have a: "secret_protected (ContainsFinalizer s secretProtectionFinalizer) cs"
    and b: "ContainsFinalizer s1 secretProtectionFinalizer"
    using reconcile_secret_update [OF R m] by simp_all
  have c: "ContainsFinalizer s secretProtectionFinalizer \<Longrightarrow>
      s1 = s \<and> Updated_Secret s2 e2 \<notin> set cs" for s2 e2
    using reconcile_secret_update [OF R m, of s2 e2] by simp
  have d: "\<not> ContainsFinalizer s secretProtectionFinalizer \<Longrightarrow>
      s1 = AddFinalizer s secretProtectionFinalizer \<and>
      take 2 cs =
        [Event EventTypeNormal eventReconciliationStarted ''starting reconciliation'',
         Updated_Secret (AddFinalizer s secretProtectionFinalizer)
           (Update_Secret k8s
              (tr @ [Event EventTypeNormal eventReconciliationStarted ''starting reconciliation''])
              (AddFinalizer s secretProtectionFinalizer))] \<and>
      Updated_Secret s2 e2 \<notin> set (drop 2 cs)" for s2 e2
    using reconcile_secret_update [OF R m, of s2 e2] by auto
  have e: "\<not> ContainsFinalizer s secretProtectionFinalizer \<Longrightarrow>
      Update_Secret k8s
         (tr @ [Event EventTypeNormal eventReconciliationStarted ''starting reconciliation''])
         (AddFinalizer s secretProtectionFinalizer) = Some e \<Longrightarrow>
      (r, s1, o1, cs) =
         ((Result_zero, Some (Errorf ''unable to add finalizer to secret: '' e)),
          AddFinalizer s secretProtectionFinalizer, o',
          [Event EventTypeNormal eventReconciliationStarted ''starting reconciliation'',
           Updated_Secret (AddFinalizer s secretProtectionFinalizer) (Some e)])" for e
  proof -
    assume n: "\<not> ContainsFinalizer s secretProtectionFinalizer"
      and u: "Update_Secret k8s
         (tr @ [Event EventTypeNormal eventReconciliationStarted ''starting reconciliation''])
         (AddFinalizer s secretProtectionFinalizer) = Some e"
    from reconcile_secret_update [OF R m, of _ _ e] n u
    have t: "take 2 cs =
        [Event EventTypeNormal eventReconciliationStarted ''starting reconciliation'',
         Updated_Secret (AddFinalizer s secretProtectionFinalizer) (Some e)]"
      and rest: "r = (Result_zero, Some (Errorf ''unable to add finalizer to secret: '' e))"
        "s1 = AddFinalizer s secretProtectionFinalizer" "o1 = o'" "drop 2 cs = []"
      by simp_all
    from t rest(4) have "cs =
        [Event EventTypeNormal eventReconciliationStarted ''starting reconciliation'',
         Updated_Secret (AddFinalizer s secretProtectionFinalizer) (Some e)]"
      using append_take_drop_id [of 2 cs] by simp
    with rest show ?thesis by simp
  qed
  show ?thesis
    unfolding R secret_of_def calls_of_def using a b c d e by simp
qed

theorem secret_finalizer_first_witness:
  "\<not> isMarkedForDeletion obj_new \<and>
   \<not> ContainsFinalizer secret0 secretProtectionFinalizer \<and>
   Update_Secret k8s_ok
     [Event EventTypeNormal eventReconciliationStarted ''starting reconciliation'']
     (AddFinalizer secret0 secretProtectionFinalizer) = None \<and>
   take 2 (calls_of (reconcileInstance h_ok k8s_ok avn0 secret0 obj_new [])) =
     [Event EventTypeNormal eventReconciliationStarted ''starting reconciliation'',
      Updated_Secret (AddFinalizer secret0 secretProtectionFinalizer) None] \<and>
   list_ex is_createOrUpdate (calls_of (reconcileInstance h_ok k8s_ok avn0 secret0 obj_new [])) \<and>
   secret_protected False (calls_of (reconcileInstance h_ok k8s_ok avn0 secret0 obj_new [])) \<and>
   Update_Secret k8s_secret_fails
     [Event EventTypeNormal eventReconciliationStarted ''starting reconciliation'']
     (AddFinalizer secret0 secretProtectionFinalizer) = Some (K8sError ''conflict'' False) \<and>
   reconcileInstance h_ok k8s_secret_fails avn0 secret0 obj_new [] =
     ((Result_zero,
       Some (Errorf ''unable to add finalizer to secret: '' (K8sError ''conflict'' False))),
      AddFinalizer secret0 secretProtectionFinalizer, obj_new,
      [Event EventTypeNormal eventReconciliationStarted ''starting reconciliation'',
       Updated_Secret (AddFinalizer secret0 secretProtectionFinalizer)
         (Some (K8sError ''conflict'' False))])"
proof -
  have a: "\<not> isMarkedForDeletion obj_new"
    by (simp add: isMarkedForDeletion_def obj_new_def)
  have b: "\<not> ContainsFinalizer secret0 secretProtectionFinalizer"
    by (simp add: ContainsFinalizer_def secret0_def)
  have c: "list_ex is_createOrUpdate
      (calls_of (reconcileInstance h_ok k8s_ok avn0 secret0 obj_new []))"
    by (simp add: engine_defs reading_defs h_ok_def k8s_ok_def secret0_def obj_new_def Let_def)
  have d: "Update_Secret k8s_ok
     ([] @ [Event EventTypeNormal eventReconciliationStarted ''starting reconciliation''])
     (AddFinalizer secret0 secretProtectionFinalizer) = None"
    by (simp add: k8s_ok_def)
  have e: "Update_Secret k8s_secret_fails
     ([] @ [Event EventTypeNormal eventReconciliationStarted ''starting reconciliation''])
     (AddFinalizer secret0 secretProtectionFinalizer) = Some (K8sError ''conflict'' False)"
    by (simp add: k8s_secret_fails_def k8s_ok_def)
  show ?thesis
    using a b c d e
      secret_finalizer_first [OF a, of secret0 h_ok k8s_ok avn0 "[]"]
      secret_finalizer_first [OF a, of secret0 h_ok k8s_secret_fails avn0 "[]"]
    by simp
qed

subsection \<open>Credentials\<close>

text \<open>
  C7: the object was loaded. When the credential secret it names cannot be fetched, or
  the secret was fetched and no provider client can be made from its token,
  \<open>Controller_reconcileInstance\<close> returns an error with the zero result; the calls of the pass
  are the two reads of the store and one warning notification with the text of the error,
  none of which writes to the store or reaches the handler; and the object is the object
  as loaded.
\<close>

theorem credential_failure_aborts:
  assumes "Get_Object c tr req = Inr o'"
  shows "(Get_Secret c (tr @ [Got_Object req (Inr o')]) (AuthSecretRef_Name o', snd req) = Inl e \<longrightarrow>
      Controller_reconcileInstance h c req tr =
        ((Result_zero,
          Some (Errorf (''cannot get secret '' @ quoted (AuthSecretRef_Name o') @ '': '') e)),
         None, Some o',
         [Got_Object req (Inr o'), Got_Secret (AuthSecretRef_Name o', snd req) (Inl e),
          Eventf EventTypeWarning eventUnableToGetAuthSecret (Error e)]) \<and>
      \<not> list_ex changes_state (calls_of (Controller_reconcileInstance h c req tr))) \<and>
    (Get_Secret c (tr @ [Got_Object req (Inr o')]) (AuthSecretRef_Name o', snd req) = Inr sec \<and>
     NewTokenClient c (case Data sec (AuthSecretRef_Key o') of None \<Rightarrow> [] | Some v \<Rightarrow> v)
       ''k8s-operator/'' = Inl e \<longrightarrow>
      Controller_reconcileInstance h c req tr =
        ((Result_zero, Some (Errorf ''cannot initialize aiven client: '' e)),
         Some sec, Some o',
         [Got_Object req (Inr o'), Got_Secret (AuthSecretRef_Name o', snd req) (Inr sec),
          Event EventTypeWarning eventUnableToCreateClient (Error e)]) \<and>
      \<not> list_ex changes_state (calls_of (Controller_reconcileInstance h c req tr)))"
  using assms by (simp add: Controller_reconcileInstance_def calls_of_def Let_def)

theorem credential_failure_aborts_witness:
  "Get_Object k8s_no_secret [] (''pg'', ''default'') = Inr obj_new \<and>
   Get_Secret k8s_no_secret [Got_Object (''pg'', ''default'') (Inr obj_new)]
     (AuthSecretRef_Name obj_new, ''default'') = Inl (K8sError ''secret not found'' True) \<and>
   snd (result_of (Controller_reconcileInstance h_ok k8s_no_secret (''pg'', ''default'') [])) =
     Some (Errorf (''cannot get secret '' @ quoted (AuthSecretRef_Name obj_new) @ '': '')
             (K8sError ''secret not found'' True)) \<and>
   object_of (Controller_reconcileInstance h_ok k8s_no_secret (''pg'', ''default'') []) =
     Some obj_new \<and>
   \<not> list_ex changes_state
       (calls_of (Controller_reconcileInstance h_ok k8s_no_secret (''pg'', ''default'') [])) \<and>
   Get_Object k8s_no_client [] (''pg'', ''default'') = Inr obj_new \<and>
   Get_Secret k8s_no_client [Got_Object (''pg'', ''default'') (Inr obj_new)]
     (AuthSecretRef_Name obj_new, ''default'') = Inr secret0 \<and>
   NewTokenClient k8s_no_client
     (case Data secret0 (AuthSecretRef_Key obj_new) of None \<Rightarrow> [] | Some v \<Rightarrow> v)
     ''k8s-operator/'' = Inl (ClientError ''cannot create client'') \<and>
   snd (result_of (Controller_reconcileInstance h_ok k8s_no_client (''pg'', ''default'') [])) =
     Some (Errorf ''cannot initialize aiven client: '' (ClientError ''cannot create client'')) \<and>
   object_of (Controller_reconcileInstance h_ok k8s_no_client (''pg'', ''default'') []) =
     Some obj_new \<and>
   \<not> list_ex changes_state
       (calls_of (Controller_reconcileInstance h_ok k8s_no_client (''pg'', ''default'') []))"
proof -
  have a: "Get_Object k8s_no_secret [] (''pg'', ''default'') = Inr obj_new"
    by (simp add: k8s_no_secret_def k8s_ok_def)
  have b: "Get_Secret k8s_no_secret ([] @ [Got_Object (''pg'', ''default'') (Inr obj_new)])
     (AuthSecretRef_Name obj_new, snd (''pg'', ''default'')) = Inl (K8sError ''secret not found'' True)"
    by (simp add: k8s_no_secret_def k8s_ok_def)
  have c: "Get_Object k8s_no_client [] (''pg'', ''default'') = Inr obj_new"
    by (simp add: k8s_no_client_def k8s_ok_def)
  have d: "Get_Secret k8s_no_client ([] @ [Got_Object (''pg'', ''default'') (Inr obj_new)])
     (AuthSecretRef_Name obj_new, snd (''pg'', ''default'')) = Inr secret0"
    by (simp add: k8s_no_client_def k8s_ok_def)
  have e: "NewTokenClient k8s_no_client
     (case Data secret0 (AuthSecretRef_Key obj_new) of None \<Rightarrow> [] | Some v \<Rightarrow> v)
     ''k8s-operator/'' = Inl (ClientError ''cannot create client'')"
    by (simp add: k8s_no_client_def k8s_ok_def)
  show ?thesis
    using a b c d e
      credential_failure_aborts [OF a, where h = h_ok and e = "K8sError ''secret not found'' True"]
      credential_failure_aborts [OF c, where h = h_ok and sec = secret0
        and e = "ClientError ''cannot create client''"]
    by (simp add: reading_defs)
qed

subsection \<open>Flattening a configuration\<close>

lemma UserConfigurationToAPI_nonstruct:
  "Kind_of (if Kind_of c = KPtr then Indirect c else c) \<noteq> KStruct \<Longrightarrow>
   UserConfigurationToAPI c =
     (case Kind_of (if Kind_of c = KPtr then Indirect c else c) of
        KInt64 \<Rightarrow>
          (case c of Ptr (Some (Int64 n)) \<Rightarrow> Inr (Int64 n)
           | _ \<Rightarrow> Inl (Panic ''interface conversion: interface {} is int64, not *int64''))
      | KBool \<Rightarrow>
          (case c of Ptr (Some (Bool b)) \<Rightarrow> Inr (Bool b)
           | _ \<Rightarrow> Inl (Panic ''interface conversion: interface {} is bool, not *bool''))
      | _ \<Rightarrow> Inr c)"
  by (subst UserConfigurationToAPI.simps) (simp add: Let_def)

lemma UserConfigurationToAPI_Struct:
  "UserConfigurationToAPI (Struct fs) =
     (case assign_fields (map (\<lambda>f. (field_name f, UserConfigurationToAPI (snd f))) fs) [] of
        Inl p \<Rightarrow> Inl p | Inr result \<Rightarrow> remove_empty result)"
  by (subst UserConfigurationToAPI.simps) (simp add: Let_def field_name_def case_prod_unfold)

lemma UserConfigurationToAPI_Ptr_Struct:
  "UserConfigurationToAPI (Ptr (Some (Struct fs))) = UserConfigurationToAPI (Struct fs)"
  by (subst UserConfigurationToAPI.simps, subst (2) UserConfigurationToAPI.simps)
    (simp add: Let_def)

lemma flatten_config_unset: "UserConfigurationToAPI config_unset = Inr (Map [])"
  by (simp add: config_unset_def UserConfigurationToAPI_Struct UserConfigurationToAPI_nonstruct
      field_name_def ReplaceAll_def remove_empty_def deleted_def)

lemma assign_keys:
  "map fst (assign m k v) = (if k \<in> set (map fst m) then map fst m else map fst m @ [k])"
  by (induction m) (simp, force)

lemma assign_distinct: "distinct (map fst m) \<Longrightarrow> distinct (map fst (assign m k v))"
  by (simp add: assign_keys)

lemma assign_set: "e \<in> set (assign m k v) \<Longrightarrow> e = (k, v) \<or> e \<in> set m"
  by (induction m) (auto split: if_splits)

lemma assign_new: "(k, v) \<in> set (assign m k v)"
  by (induction m) auto

lemma assign_other: "e \<in> set m \<Longrightarrow> fst e \<noteq> k \<Longrightarrow> e \<in> set (assign m k v)"
  by (induction m) auto

lemma assign_fields_append:
  "assign_fields (xs @ ys) acc =
     (case assign_fields xs acc of Inl p \<Rightarrow> Inl p | Inr r \<Rightarrow> assign_fields ys r)"
  by (induction xs acc rule: assign_fields.induct) auto

text \<open>Fields that all convert to a value the second loop deletes leave only such values.\<close>

lemma assign_fields_unset:
  assumes "\<forall>f \<in> set fs. \<exists>r. UserConfigurationToAPI (snd f) = Inr r \<and> deleted r \<and> r \<noteq> Nil"
    and "\<forall>e \<in> set acc. deleted (snd e) \<and> snd e \<noteq> Nil"
    and "distinct (map fst acc)"
  shows "\<exists>result.
     assign_fields (map (\<lambda>f. (field_name f, UserConfigurationToAPI (snd f))) fs) acc = Inr result \<and>
     (\<forall>e \<in> set result. deleted (snd e) \<and> snd e \<noteq> Nil) \<and> distinct (map fst result)"
  using assms
proof (induction fs arbitrary: acc)
  case Nil
  then show ?case by simp
next
  case (Cons f fs)
  from Cons.prems(1) obtain r where
    r: "UserConfigurationToAPI (snd f) = Inr r" "deleted r" "r \<noteq> Nil"
    by auto
  have "\<forall>e \<in> set (assign acc (field_name f) r). deleted (snd e) \<and> snd e \<noteq> Nil"
    using Cons.prems(2) r by (auto dest: assign_set)
  moreover have "distinct (map fst (assign acc (field_name f) r))"
    using Cons.prems(3) by (rule assign_distinct)
  moreover have "\<forall>f \<in> set fs. \<exists>r. UserConfigurationToAPI (snd f) = Inr r \<and> deleted r \<and> r \<noteq> Nil"
    using Cons.prems(1) by simp
  ultimately show ?case
    using Cons.IH [of "assign acc (field_name f) r"] r by simp
qed

lemma remove_empty_all_deleted:
  "\<forall>e \<in> set result. deleted (snd e) \<and> snd e \<noteq> Nil \<Longrightarrow> remove_empty result = Inr (Map [])"
  by (auto simp add: remove_empty_def list_ex_iff filter_empty_conv)

lemma unset_flattens_to_deleted:
  "unset v \<Longrightarrow> \<exists>r. UserConfigurationToAPI v = Inr r \<and> deleted r \<and> r \<noteq> Nil"
proof (induction v)
  case (Ptr p)
  then show ?case by (simp add: UserConfigurationToAPI_nonstruct deleted_def)
next
  case (String s)
  then show ?case by (simp add: UserConfigurationToAPI_nonstruct deleted_def)
next
  case (Slice xs)
  then show ?case by (simp add: UserConfigurationToAPI_nonstruct deleted_def)
next
  case (Struct fs)
  have "\<forall>f \<in> set fs. \<exists>r. UserConfigurationToAPI (snd f) = Inr r \<and> deleted r \<and> r \<noteq> Nil"
  proof
    fix f assume f: "f \<in> set fs"
    with Struct.prems have "unset (snd f)" by (simp add: list_all_iff)
    moreover have "snd f \<in> Basic_BNFs.snds f" by (cases f) simp
    ultimately show "\<exists>r. UserConfigurationToAPI (snd f) = Inr r \<and> deleted r \<and> r \<noteq> Nil"
      using Struct.IH [OF f] by blast
  qed
  from assign_fields_unset [OF this, of "[]"] obtain result where
    result: "assign_fields (map (\<lambda>f. (field_name f, UserConfigurationToAPI (snd f))) fs) [] =
      Inr result"
    "\<forall>e \<in> set result. deleted (snd e) \<and> snd e \<noteq> Nil"
    by auto
  from result(2) have "remove_empty result = Inr (Map [])"
    by (rule remove_empty_all_deleted)
  with result(1) have "UserConfigurationToAPI (Struct fs) = Inr (Map [])"
    by (simp add: UserConfigurationToAPI_Struct)
  then show ?case
    by (simp add: deleted_def)
qed simp_all

lemma present_scalar_flattens:
  "present_scalar p \<Longrightarrow> UserConfigurationToAPI p = Inr (flat p) \<and> \<not> deleted (flat p)"
  by (induction p rule: present_scalar.induct)
    (simp_all add: UserConfigurationToAPI_nonstruct deleted_def)

lemma filter_single:
  "distinct (map fst m) \<Longrightarrow> (k, v) \<in> set m \<Longrightarrow> P (k, v) \<Longrightarrow>
   \<forall>e \<in> set m. fst e \<noteq> k \<longrightarrow> \<not> P e \<Longrightarrow> filter P m = [(k, v)]"
proof (induction m)
  case Nil
  then show ?case by simp
next
  case (Cons e m)
  show ?case
  proof (cases "fst e = k")
    case True
    with Cons.prems(1,2) have e: "e = (k, v)"
      by (cases e) (auto simp add: image_iff)
    from True Cons.prems(1) have "\<forall>x \<in> set m. fst x \<noteq> k"
      by (auto simp add: image_iff)
    with Cons.prems(4) have "filter P m = []"
      by (auto simp add: filter_empty_conv)
    with e Cons.prems(3) show ?thesis by simp
  next
    case False
    with Cons.prems(2) have "(k, v) \<in> set m" by auto
    moreover from False Cons.prems(4) have "\<not> P e" by simp
    ultimately show ?thesis
      using Cons.IH Cons.prems by simp
  qed
qed

text \<open>Once the present field is assigned, unset fields with other names leave it the only
  entry the second loop keeps.\<close>

lemma assign_fields_keeps_one:
  assumes "\<forall>g \<in> set post. field_name g \<noteq> k \<and>
             (\<exists>r. UserConfigurationToAPI (snd g) = Inr r \<and> deleted r \<and> r \<noteq> Nil)"
    and "distinct (map fst acc)" and "(k, v) \<in> set acc"
    and "\<forall>e \<in> set acc. fst e \<noteq> k \<longrightarrow> deleted (snd e) \<and> snd e \<noteq> Nil"
  shows "\<exists>result.
     assign_fields (map (\<lambda>f. (field_name f, UserConfigurationToAPI (snd f))) post) acc = Inr result \<and>
     distinct (map fst result) \<and> (k, v) \<in> set result \<and>
     (\<forall>e \<in> set result. fst e \<noteq> k \<longrightarrow> deleted (snd e) \<and> snd e \<noteq> Nil)"
  using assms
proof (induction post arbitrary: acc)
  case Nil
  then show ?case by simp
next
  case (Cons g post)
  from Cons.prems(1) obtain r where
    r: "UserConfigurationToAPI (snd g) = Inr r" "deleted r" "r \<noteq> Nil" and
    n: "field_name g \<noteq> k"
    by auto
  let ?acc = "assign acc (field_name g) r"
  have "distinct (map fst ?acc)"
    using Cons.prems(2) by (rule assign_distinct)
  moreover have "(k, v) \<in> set ?acc"
    using Cons.prems(3) n by (auto intro: assign_other)
  moreover have "\<forall>e \<in> set ?acc. fst e \<noteq> k \<longrightarrow> deleted (snd e) \<and> snd e \<noteq> Nil"
    using Cons.prems(4) r by (auto dest: assign_set)
  moreover have "\<forall>g \<in> set post. field_name g \<noteq> k \<and>
             (\<exists>r. UserConfigurationToAPI (snd g) = Inr r \<and> deleted r \<and> r \<noteq> Nil)"
    using Cons.prems(1) by simp
  ultimately show ?case
    using Cons.IH [of ?acc] r by simp
qed

lemma one_present_field:
  assumes pre: "list_all (\<lambda>g. unset (snd g)) pre"
    and f: "present_scalar (snd f)"
    and post: "list_all (\<lambda>g. unset (snd g) \<and> field_name g \<noteq> field_name f) post"
  shows "UserConfigurationToAPI (Struct (pre @ f # post)) =
     Inr (Map [(field_name f, flat (snd f))])"
proof -
  let ?g = "\<lambda>f. (field_name f, UserConfigurationToAPI (snd f))"
  from pre have "\<forall>g \<in> set pre. \<exists>r. UserConfigurationToAPI (snd g) = Inr r \<and> deleted r \<and> r \<noteq> Nil"
    by (auto simp add: list_all_iff dest: unset_flattens_to_deleted)
  from assign_fields_unset [OF this, of "[]"] obtain acc1 where
    acc1: "assign_fields (map ?g pre) [] = Inr acc1"
      "\<forall>e \<in> set acc1. deleted (snd e) \<and> snd e \<noteq> Nil" "distinct (map fst acc1)"
    by auto
  from f have v: "UserConfigurationToAPI (snd f) = Inr (flat (snd f))" "\<not> deleted (flat (snd f))"
    using present_scalar_flattens by auto
  let ?acc2 = "assign acc1 (field_name f) (flat (snd f))"
  have "distinct (map fst ?acc2)"
    using acc1(3) by (rule assign_distinct)
  moreover have "(field_name f, flat (snd f)) \<in> set ?acc2"
    by (rule assign_new)
  moreover have "\<forall>e \<in> set ?acc2. fst e \<noteq> field_name f \<longrightarrow> deleted (snd e) \<and> snd e \<noteq> Nil"
    using acc1(2) by (auto dest: assign_set)
  moreover from post have "\<forall>g \<in> set post. field_name g \<noteq> field_name f \<and>
      (\<exists>r. UserConfigurationToAPI (snd g) = Inr r \<and> deleted r \<and> r \<noteq> Nil)"
    by (auto simp add: list_all_iff dest: unset_flattens_to_deleted)
  ultimately obtain result where
    result: "assign_fields (map ?g post) ?acc2 = Inr result" "distinct (map fst result)"
      "(field_name f, flat (snd f)) \<in> set result"
      "\<forall>e \<in> set result. fst e \<noteq> field_name f \<longrightarrow> deleted (snd e) \<and> snd e \<noteq> Nil"
    using assign_fields_keeps_one [of post "field_name f" ?acc2 "flat (snd f)"] by blast
  have all: "assign_fields (map ?g (pre @ f # post)) [] = Inr result"
    using acc1(1) v(1) result(1) by (simp add: assign_fields_append)
  have no_nil: "\<not> list_ex (\<lambda>(key, val). val = Nil) result"
  proof
    assume "list_ex (\<lambda>(key, val). val = Nil) result"
    then obtain e where e: "e \<in> set result" "snd e = Nil"
      by (auto simp add: list_ex_iff)
    show False
    proof (cases "fst e = field_name f")
      case True
      with e(1) result(2,3) have "e = (field_name f, flat (snd f))"
        by (metis eq_key_imp_eq_value prod.collapse)
      with e(2) v(2) show False by (simp add: deleted_def)
    next
      case False
      with e result(4) show False by auto
    qed
  qed
  have "filter (\<lambda>(key, val). \<not> deleted val) result = [(field_name f, flat (snd f))]"
    using result(2,3) v(2) result(4) by (intro filter_single) auto
  with all no_nil show ?thesis
    by (simp add: UserConfigurationToAPI_Struct remove_empty_def)
qed

lemma flatten_struct_pruned:
  "UserConfigurationToAPI (Struct fs) = Inr r \<Longrightarrow>
   \<exists>m. r = Map m \<and>
     list_all (\<lambda>e. snd e \<noteq> Nil \<and> \<not> isNil (snd e) \<and> snd e \<noteq> String [] \<and> snd e \<noteq> Map []) m"
  by (auto simp add: UserConfigurationToAPI_Struct remove_empty_def deleted_def list_all_iff
      split: sum.splits if_splits)

text \<open>
  C9: the mapping \<open>UserConfigurationToAPI\<close> returns for a struct. When every field is unset
  it is the empty mapping. When one field is a present scalar, the fields before and after
  it are unset and no later field has its name, the mapping has exactly one key, the name
  of that field, with the flattened value. And whatever the struct, a mapping that is
  returned holds no nil value, no empty string and no empty mapping.
\<close>

theorem flatten_prunes:
  "(list_all (\<lambda>g. unset (snd g)) fs \<longrightarrow> UserConfigurationToAPI (Struct fs) = Inr (Map [])) \<and>
   (list_all (\<lambda>g. unset (snd g)) pre \<and> present_scalar (snd f) \<and>
    list_all (\<lambda>g. unset (snd g) \<and> field_name g \<noteq> field_name f) post \<longrightarrow>
      UserConfigurationToAPI (Struct (pre @ f # post)) =
        Inr (Map [(field_name f, flat (snd f))])) \<and>
   (UserConfigurationToAPI (Struct fs) = Inr r \<longrightarrow>
      (\<exists>m. r = Map m \<and>
         list_all (\<lambda>e. snd e \<noteq> Nil \<and> \<not> isNil (snd e) \<and> snd e \<noteq> String [] \<and> snd e \<noteq> Map []) m))"
proof (intro conjI impI)
  assume "list_all (\<lambda>g. unset (snd g)) fs"
  then have "unset (Struct fs)" by simp
  from unset_flattens_to_deleted [OF this] obtain r' where
    r': "UserConfigurationToAPI (Struct fs) = Inr r'" "deleted r'" "r' \<noteq> Nil"
    by auto
  from flatten_struct_pruned [OF r'(1)] obtain m where "r' = Map m" by auto
  with r'(2) have "r' = Map []" by (simp add: deleted_def)
  with r'(1) show "UserConfigurationToAPI (Struct fs) = Inr (Map [])" by simp
next
  assume "list_all (\<lambda>g. unset (snd g)) pre \<and> present_scalar (snd f) \<and>
    list_all (\<lambda>g. unset (snd g) \<and> field_name g \<noteq> field_name f) post"
  then show "UserConfigurationToAPI (Struct (pre @ f # post)) =
      Inr (Map [(field_name f, flat (snd f))])"
    using one_present_field by blast
next
  assume "UserConfigurationToAPI (Struct fs) = Inr r"
  then show "\<exists>m. r = Map m \<and>
      list_all (\<lambda>e. snd e \<noteq> Nil \<and> \<not> isNil (snd e) \<and> snd e \<noteq> String [] \<and> snd e \<noteq> Map []) m"
    by (rule flatten_struct_pruned)
qed

theorem flatten_prunes_witness:
  "unset config_unset \<and>
   UserConfigurationToAPI config_unset = Inr (Map []) \<and>
   present_scalar (Ptr (Some (Int64 100))) \<and>
   UserConfigurationToAPI config_one = Inr (Map [(''max_connections'', Int64 100)]) \<and>
   list_all (\<lambda>e. snd e \<noteq> Nil \<and> \<not> isNil (snd e) \<and> snd e \<noteq> String [] \<and> snd e \<noteq> Map [])
     [(''max_connections'', Int64 100)]"
proof -
  let ?fs = "[(''ip_filter,omitempty'', Slice None),
      (''kafka_version,omitempty'', String []),
      (''max_connections,omitempty'', Ptr None),
      (''private_access,omitempty'', Struct [(''prometheus,omitempty'', Ptr None)])]"
  let ?pre = "[(''ip_filter,omitempty'', Slice None)]"
  let ?f = "(''max_connections,omitempty'', Ptr (Some (Int64 100)))"
  let ?post = "[(''kafka_version,omitempty'', String []),
      (''private_access,omitempty'', Struct [(''prometheus,omitempty'', Ptr None)])]"
  have a: "list_all (\<lambda>g. unset (snd g)) ?fs"
    by simp
  have b: "list_all (\<lambda>g. unset (snd g)) ?pre \<and> present_scalar (snd ?f) \<and>
      list_all (\<lambda>g. unset (snd g) \<and> field_name g \<noteq> field_name ?f) ?post"
    by (simp add: field_name_def ReplaceAll_def)
  have n: "field_name ?f = ''max_connections''"
    by (simp add: field_name_def ReplaceAll_def)
  from a have "UserConfigurationToAPI config_unset = Inr (Map [])"
    using flatten_prunes [where fs = ?fs] by (simp add: config_unset_def)
  moreover from b have "UserConfigurationToAPI config_one = Inr (Map [(''max_connections'', Int64 100)])"
    using flatten_prunes [where pre = ?pre and f = ?f and post = ?post] n
    by (simp add: config_one_def)
  ultimately show ?thesis
    by (simp add: config_unset_def)
qed

subsection \<open>Service integrations\<close>

text \<open>With an empty \<open>Status_ID\<close> the function never returns the object with a nil error:
  it panics, or it returns an error of the conversion or of \<^verbatim>\<open>Create\<close>.\<close>

lemma create_never_succeeds:
  "Status_ID si = [] \<Longrightarrow>
   ServiceIntegrationHandler_createOrUpdate api (ServiceIntegration_Object si) \<noteq>
     Inr (Some si', None)"
  by (auto simp add: ServiceIntegrationHandler_createOrUpdate_def convert_def
      createOrUpdate_request_def createOrUpdate_record_def Let_def
      split: prod.splits sum.splits option.splits)

text \<open>
  C10: a ServiceIntegration with an empty \<open>Status_ID\<close> whose user configuration converts
  without a panic, and a \<^verbatim>\<open>Create\<close> call of the provider that answers without an error.
  \<open>ServiceIntegrationHandler_createOrUpdate\<close> then panics with a nil pointer dereference:
  the pointer that \<^verbatim>\<open>Create\<close> answered with was discarded, and
  \<^verbatim>\<open>integration.ServiceIntegrationID\<close> reads through the nil pointer the variable was
  declared with. No identifier is recorded.
\<close>

theorem create_success_panics:
  "Status_ID si = [] \<Longrightarrow> getUserConfig si = Inr uc \<Longrightarrow>
   snd (Create api (Spec_Project si)
     \<lparr>DestinationEndpointID = toOptionalStringPointer (Spec_DestinationEndpointID si),
      DestinationService = toOptionalStringPointer (Spec_DestinationServiceName si),
      IntegrationType = Spec_IntegrationType si,
      SourceEndpointID = toOptionalStringPointer (Spec_SourceEndpointID si),
      SourceService = toOptionalStringPointer (Spec_SourceServiceName si),
      UserConfig = uc\<rparr>) = None \<Longrightarrow>
   ServiceIntegrationHandler_createOrUpdate api (ServiceIntegration_Object si) =
     Inl (Panic ''invalid memory address or nil pointer dereference'')"
  by (auto simp add: ServiceIntegrationHandler_createOrUpdate_def convert_def
      createOrUpdate_request_def createOrUpdate_record_def Let_def split: prod.splits)

theorem create_success_panics_witness:
  "Status_ID si_new = [] \<and> getUserConfig si_new = Inr (Some []) \<and>
   Create api_ok (Spec_Project si_new)
     \<lparr>DestinationEndpointID = toOptionalStringPointer (Spec_DestinationEndpointID si_new),
      DestinationService = toOptionalStringPointer (Spec_DestinationServiceName si_new),
      IntegrationType = Spec_IntegrationType si_new,
      SourceEndpointID = toOptionalStringPointer (Spec_SourceEndpointID si_new),
      SourceService = toOptionalStringPointer (Spec_SourceServiceName si_new),
      UserConfig = Some []\<rparr> = (Some \<lparr>ServiceIntegrationID = ''abc-123''\<rparr>, None) \<and>
   ServiceIntegrationHandler_createOrUpdate api_ok (ServiceIntegration_Object si_new) =
     Inl (Panic ''invalid memory address or nil pointer dereference'')"
proof -
  have a: "Status_ID si_new = []"
    by (simp add: si_new_def)
  have b: "getUserConfig si_new = Inr (Some [])"
    by (simp add: getUserConfig_def si_new_def as_map_def flatten_config_unset)
  have c: "Create api_ok (Spec_Project si_new)
     \<lparr>DestinationEndpointID = toOptionalStringPointer (Spec_DestinationEndpointID si_new),
      DestinationService = toOptionalStringPointer (Spec_DestinationServiceName si_new),
      IntegrationType = Spec_IntegrationType si_new,
      SourceEndpointID = toOptionalStringPointer (Spec_SourceEndpointID si_new),
      SourceService = toOptionalStringPointer (Spec_SourceServiceName si_new),
      UserConfig = Some []\<rparr> = (Some \<lparr>ServiceIntegrationID = ''abc-123''\<rparr>, None)"
    by (simp add: api_ok_def)
  have d: "snd (Create api_ok (Spec_Project si_new)
     \<lparr>DestinationEndpointID = toOptionalStringPointer (Spec_DestinationEndpointID si_new),
      DestinationService = toOptionalStringPointer (Spec_DestinationServiceName si_new),
      IntegrationType = Spec_IntegrationType si_new,
      SourceEndpointID = toOptionalStringPointer (Spec_SourceEndpointID si_new),
      SourceService = toOptionalStringPointer (Spec_SourceServiceName si_new),
      UserConfig = Some []\<rparr>) = None"
    by (simp add: c)
  show ?thesis
    using a b c create_success_panics [OF a b d] by simp
qed

end
